theory Spec2Isabelle
  imports Main "HOL-Library.Word"
begin

section \<open>JavaScript values\<close>

text \<open>
  A JavaScript string is a sequence of UTF-16 code units. \<open>js\<close> gives the code units of
  an ASCII literal of the source (\<open>js ''POST''\<close> is the source's \<^verbatim>\<open>'POST'\<close>).
  The bytes of a request body are Isabelle characters, which are bytes.
\<close>

type_synonym jsstring = "16 word list"

type_synonym bytes = "char list"

definition js :: "string \<Rightarrow> jsstring" where
  "js s = map of_char s"

text \<open>
  The result of \<^verbatim>\<open>JSON.parse\<close>. An object is the list of its members; a read takes the
  first entry of a key. The numbers of a webhook payload are identifiers, carried as
  integers; the only test the source makes on one is its truthiness. \<open>None\<close> of type
  \<open>jsval\<close> is \<^verbatim>\<open>undefined\<close>.
\<close>

datatype json =
    JNull
  | JBool bool
  | JNum int
  | JStr jsstring
  | JArr "json list"
  | JObj "(jsstring \<times> json) list"

type_synonym jsval = "json option"

text \<open>
  What the code throws: a TypeError (a read on \<^verbatim>\<open>undefined\<close> or \<^verbatim>\<open>null\<close>, a call of
  something that is no function), an \<^verbatim>\<open>Error\<close> with its message, and the rejections of
  the library calls: of \<^verbatim>\<open>webhooks.receive\<close> on a payload that is falsy, of the
  credential exchange and of the dispatch request.
\<close>

datatype error =
    TypeError
  | Error string
  | PayloadNotPassed
  | AppAuthRejected
  | RequestRejected

text \<open>\<^verbatim>\<open>!v\<close> is \<open>\<not> truthy v\<close>.\<close>

fun truthy :: "jsval \<Rightarrow> bool" where
  "truthy None = False"
| "truthy (Some JNull) = False"
| "truthy (Some (JBool b)) = b"
| "truthy (Some (JNum n)) = (n \<noteq> 0)"
| "truthy (Some (JStr s)) = (s \<noteq> [])"
| "truthy (Some (JArr xs)) = True"
| "truthy (Some (JObj kvs)) = True"

text \<open>
  \<^verbatim>\<open>v.k\<close>: reading a property of \<^verbatim>\<open>undefined\<close> or \<^verbatim>\<open>null\<close> throws a TypeError; an
  object gives its member or \<^verbatim>\<open>undefined\<close>; a number, boolean, string or array gives
  \<^verbatim>\<open>undefined\<close> for every property name the source reads (none of them is a property
  of those prototypes). \<open>opt_prop\<close> is \<^verbatim>\<open>v?.k\<close>.
\<close>

fun get_prop :: "jsval \<Rightarrow> jsstring \<Rightarrow> error + jsval" where
  "get_prop None k = Inl TypeError"
| "get_prop (Some JNull) k = Inl TypeError"
| "get_prop (Some (JObj kvs)) k = Inr (map_of kvs k)"
| "get_prop (Some v) k = Inr None"

fun opt_prop :: "jsval \<Rightarrow> jsstring \<Rightarrow> error + jsval" where
  "opt_prop None k = Inr None"
| "opt_prop (Some JNull) k = Inr None"
| "opt_prop v k = get_prop v k"

definition and_then :: "error + 'a \<Rightarrow> ('a \<Rightarrow> error + 'b) \<Rightarrow> error + 'b" where
  "and_then m f = (case m of Inl e \<Rightarrow> Inl e | Inr x \<Rightarrow> f x)"

text \<open>A member chain \<^verbatim>\<open>v.k1.k2\<close>, read from left to right.\<close>

fun read_path :: "jsval \<Rightarrow> jsstring list \<Rightarrow> error + jsval" where
  "read_path v [] = Inr v"
| "read_path v (k # ks) = and_then (get_prop v k) (\<lambda>w. read_path w ks)"

text \<open>\<^verbatim>\<open>typeof name === 'string'\<close>, and the strings that pass it.\<close>

fun typeof_string :: "jsval \<Rightarrow> bool" where
  "typeof_string (Some (JStr s)) = True"
| "typeof_string v = False"

fun strings_of :: "jsval list \<Rightarrow> jsstring list" where
  "strings_of [] = []"
| "strings_of (Some (JStr s) # vs) = s # strings_of vs"
| "strings_of (v # vs) = strings_of vs"

text \<open>
  \<^verbatim>\<open>String.prototype.trim\<close> removes the WhiteSpace and LineTerminator code units of
  ECMAScript from both ends.
\<close>

definition isWhiteSpace :: "16 word \<Rightarrow> bool" where
  "isWhiteSpace c \<longleftrightarrow>
     c \<in> {0x0009, 0x000A, 0x000B, 0x000C, 0x000D, 0x0020, 0x00A0, 0x1680,
          0x2028, 0x2029, 0x202F, 0x205F, 0x3000, 0xFEFF}
     \<or> (0x2000 \<le> c \<and> c \<le> 0x200A)"

definition trim :: "jsstring \<Rightarrow> jsstring" where
  "trim s = rev (dropWhile isWhiteSpace (rev (dropWhile isWhiteSpace s)))"

definition whitespace_only :: "jsstring \<Rightarrow> bool" where
  "whitespace_only s \<longleftrightarrow> list_all isWhiteSpace s"

text \<open>
  \<^verbatim>\<open>[...new Set(xs)]\<close>: the elements of \<open>xs\<close> in the order of their first occurrence.
\<close>

fun from_Set :: "'a list \<Rightarrow> 'a list" where
  "from_Set [] = []"
| "from_Set (x # xs) = x # from_Set (filter (\<lambda>y. y \<noteq> x) xs)"

text \<open>
  \<^verbatim>\<open>Array.prototype.sort\<close> with a comparator is stable, and with a consistent comparator
  its result is the one sorted arrangement that keeps equal elements in their order: the
  result of a stable insertion sort. \<^verbatim>\<open>a.localeCompare(b)\<close> is the collation of the
  host's locale; it is a parameter \<open>cmp\<close> here, negative when \<open>a\<close> sorts first.
\<close>

fun js_insert :: "('a \<Rightarrow> 'a \<Rightarrow> int) \<Rightarrow> 'a \<Rightarrow> 'a list \<Rightarrow> 'a list" where
  "js_insert cmp x [] = [x]"
| "js_insert cmp x (y # ys) =
     (if cmp x y \<le> 0 then x # y # ys else y # js_insert cmp x ys)"

definition js_sort :: "('a \<Rightarrow> 'a \<Rightarrow> int) \<Rightarrow> 'a list \<Rightarrow> 'a list" where
  "js_sort cmp xs = foldr (js_insert cmp) xs []"

definition consistent_comparator :: "('a \<Rightarrow> 'a \<Rightarrow> int) \<Rightarrow> bool" where
  "consistent_comparator cmp \<longleftrightarrow>
     (\<forall>a b. cmp a b \<le> 0 \<or> cmp b a \<le> 0) \<and>
     (\<forall>a b c. cmp a b \<le> 0 \<longrightarrow> cmp b c \<le> 0 \<longrightarrow> cmp a c \<le> 0)"

text \<open>
  Comparison by code units, the collation of no locale: it stands for
  \<^verbatim>\<open>localeCompare\<close> at concrete inputs, and agrees with every locale on lower-case
  ASCII words that differ in their first letter.
\<close>

fun codeunit_compare :: "jsstring \<Rightarrow> jsstring \<Rightarrow> int" where
  "codeunit_compare [] [] = 0"
| "codeunit_compare [] (y # ys) = - 1"
| "codeunit_compare (x # xs) [] = 1"
| "codeunit_compare (x # xs) (y # ys) =
     (if x < y then - 1 else if y < x then 1 else codeunit_compare xs ys)"

section \<open>Dependency normalization\<close>

text \<open>
  Lines 64 to 70 of the handler, on the array of the direct package's name and the
  names of the advisory's vulnerable packages:
  \<^verbatim>\<open>.filter((name) => typeof name === 'string').map((name) => name.trim()).filter(Boolean)\<close>
  and then \<^verbatim>\<open>[...new Set(dependencies)].sort((a, b) => a.localeCompare(b))\<close>.
\<close>

definition dependencies_filtered :: "jsval list \<Rightarrow> jsstring list" where
  "dependencies_filtered names = filter (\<lambda>name. name \<noteq> []) (map trim (strings_of names))"

definition normalizedDependencies :: "(jsstring \<Rightarrow> jsstring \<Rightarrow> int) \<Rightarrow> jsval list \<Rightarrow> jsstring list" where
  "normalizedDependencies cmp names = js_sort cmp (from_Set (dependencies_filtered names))"

section \<open>The webhook handler\<close>

text \<open>
  The calls that leave the program are parameters: the URL parser, the UTF-8 decoder,
  the library's signature check (\<open>None\<close> when it throws, as it does on an empty
  payload), \<^verbatim>\<open>JSON.parse\<close> (\<open>None\<close> for a SyntaxError), the collation and the case
  mapping of the host, the call of \<^verbatim>\<open>appAuth\<close> (\<open>None\<close> when it rejects, else the
  token, which the library obtains by an exchange or takes from its cache) and the
  dispatch call (\<open>False\<close> when it rejects).
\<close>

record DispatchPayload =
  alert_number :: jsval
  ghsa_id :: jsval
  severity :: jsval
  ecosystem :: jsstring
  dependencies :: "jsstring list"

record DispatchRequest =
  owner :: jsval
  repo :: jsval
  authorization :: jsstring
  event_type :: jsstring
  client_payload :: DispatchPayload

record env =
  pathname_of :: "jsstring \<Rightarrow> jsstring option"
  toString_utf8 :: "bytes \<Rightarrow> jsstring"
  verify :: "jsstring \<Rightarrow> jsstring \<Rightarrow> bool option"
  JSON_parse :: "jsstring \<Rightarrow> json option"
  localeCompare :: "jsstring \<Rightarrow> jsstring \<Rightarrow> int"
  toLowerCase :: "jsstring \<Rightarrow> jsstring"
  appAuth :: "jsval \<Rightarrow> jsstring option"
  githubRequest :: "DispatchRequest \<Rightarrow> bool"

text \<open>
  The trace of a request: the signature checks, the parses, the calls of \<^verbatim>\<open>appAuth\<close>
  and the dispatch calls it made, and \<^verbatim>\<open>requestMessage.destroy()\<close>, in order. Log lines
  are not traced.
\<close>

datatype effect =
    Destroy
  | Verify jsstring jsstring
  | Parse jsstring
  | AppAuth jsval
  | Dispatch DispatchRequest

fun is_destroy :: "effect \<Rightarrow> bool" where
  "is_destroy Destroy = True"
| "is_destroy e = False"

fun is_outbound :: "effect \<Rightarrow> bool" where
  "is_outbound (AppAuth i) = True"
| "is_outbound (Dispatch r) = True"
| "is_outbound e = False"

fun is_dispatch :: "effect \<Rightarrow> bool" where
  "is_dispatch (Dispatch r) = True"
| "is_dispatch e = False"

fun is_appAuth :: "effect \<Rightarrow> bool" where
  "is_appAuth (AppAuth i) = True"
| "is_appAuth e = False"

text \<open>
  \<^verbatim>\<open>vulnerabilities.map((vulnerability) => vulnerability.package.name)\<close>: a TypeError
  unless \<^verbatim>\<open>vulnerabilities\<close> is an array, and at the first element whose package is
  \<^verbatim>\<open>undefined\<close> or \<^verbatim>\<open>null\<close>.
\<close>

fun map_throwing :: "('a \<Rightarrow> error + 'b) \<Rightarrow> 'a list \<Rightarrow> error + 'b list" where
  "map_throwing f [] = Inr []"
| "map_throwing f (x # xs) =
     and_then (f x) (\<lambda>y. and_then (map_throwing f xs) (\<lambda>ys. Inr (y # ys)))"

fun array_map :: "jsval \<Rightarrow> (json \<Rightarrow> error + 'b) \<Rightarrow> error + 'b list" where
  "array_map (Some (JArr xs)) f = map_throwing f xs"
| "array_map v f = Inl TypeError"

definition vulnerability_name :: "json \<Rightarrow> error + jsval" where
  "vulnerability_name vulnerability =
     read_path (Some vulnerability) [js ''package'', js ''name'']"

text \<open>
  \<^verbatim>\<open>directPackage.ecosystem.toLowerCase()\<close> on a truthy value: a string has the method;
  a number, \<^verbatim>\<open>true\<close>, an array or an object has none that can be called.
\<close>

fun call_toLowerCase :: "env \<Rightarrow> jsval \<Rightarrow> error + jsstring" where
  "call_toLowerCase env (Some (JStr s)) = Inr (toLowerCase env s)"
| "call_toLowerCase env v = Inl TypeError"

text \<open>Line 48: \<^verbatim>\<open>event.payload.alert.dependency.package\<close>.\<close>

definition directPackage_of :: "json \<Rightarrow> error + jsval" where
  "directPackage_of payload =
     read_path (Some payload) [js ''alert'', js ''dependency'', js ''package'']"

text \<open>
  Lines 58 to 63: the array of the direct package's name and the names of the
  advisory's vulnerable packages.
\<close>

definition dependency_names :: "jsval \<Rightarrow> json \<Rightarrow> error + jsval list" where
  "dependency_names directPackage payload =
     and_then (get_prop directPackage (js ''name'')) (\<lambda>directPackage_name.
     and_then (read_path (Some payload)
                 [js ''alert'', js ''security_advisory'', js ''vulnerabilities''])
       (\<lambda>vulnerabilities.
     and_then (array_map vulnerabilities vulnerability_name) (\<lambda>names.
     Inr (directPackage_name # names))))"

text \<open>Lines 64 to 74: the normalized names, and the check that there is one.\<close>

definition checked_dependencies ::
  "(jsstring \<Rightarrow> jsstring \<Rightarrow> int) \<Rightarrow> jsval list \<Rightarrow> error + jsstring list" where
  "checked_dependencies cmp names =
     (if length (normalizedDependencies cmp names) = 0
      then Inl (Error ''No dependency names in dependabot alert payload'')
      else Inr (normalizedDependencies cmp names))"

text \<open>Line 76: \<^verbatim>\<open>event.payload.installation?.id\<close>.\<close>

definition installationId_of :: "json \<Rightarrow> error + jsval" where
  "installationId_of payload =
     and_then (get_prop (Some payload) (js ''installation'')) (\<lambda>installation.
     opt_prop installation (js ''id''))"

text \<open>
  Lines 48 to 88 of the handler, everything before its first \<^verbatim>\<open>await\<close>: the four
  checks, and the dispatch payload with the installation id.
\<close>

definition dispatchPayload :: "env \<Rightarrow> json \<Rightarrow> error + jsval \<times> DispatchPayload" where
  "dispatchPayload env payload =
     and_then (directPackage_of payload) (\<lambda>directPackage.
     if \<not> truthy directPackage then Inl (Error ''Missing alert.dependency.package'') else
     and_then (get_prop directPackage (js ''ecosystem'')) (\<lambda>directPackage_ecosystem.
     if \<not> truthy directPackage_ecosystem
     then Inl (Error ''Missing alert.dependency.package.ecosystem'') else
     and_then (dependency_names directPackage payload) (\<lambda>names.
     and_then (checked_dependencies (localeCompare env) names) (\<lambda>normalized.
     and_then (installationId_of payload) (\<lambda>installationId.
     if \<not> truthy installationId
     then Inl (Error ''Missing installation.id in webhook payload'') else
     and_then (read_path (Some payload) [js ''alert'', js ''number'']) (\<lambda>number.
     and_then (read_path (Some payload)
                 [js ''alert'', js ''security_advisory'', js ''ghsa_id'']) (\<lambda>ghsa.
     and_then (read_path (Some payload)
                 [js ''alert'', js ''security_vulnerability'', js ''severity'']) (\<lambda>sev.
     and_then (call_toLowerCase env directPackage_ecosystem) (\<lambda>lower.
     Inr (installationId,
          \<lparr>alert_number = number, ghsa_id = ghsa, severity = sev,
           ecosystem = lower, dependencies = normalized\<rparr>))))))))))"

text \<open>
  What the four checks look for, read off the payload: the direct package, its
  ecosystem or the installation id cannot be read or is falsy (absent, \<^verbatim>\<open>null\<close>, empty,
  zero), or the names cannot be read or none is left after trimming.
\<close>

definition missing :: "error + jsval \<Rightarrow> bool" where
  "missing r = (case r of Inl e \<Rightarrow> True | Inr v \<Rightarrow> \<not> truthy v)"

definition validation_failure :: "json \<Rightarrow> bool" where
  "validation_failure payload \<longleftrightarrow>
     missing (directPackage_of payload) \<or>
     missing (and_then (directPackage_of payload) (\<lambda>p. get_prop p (js ''ecosystem''))) \<or>
     (case and_then (directPackage_of payload) (\<lambda>p. dependency_names p payload) of
        Inl e \<Rightarrow> True
      | Inr names \<Rightarrow> dependencies_filtered names = []) \<or>
     missing (installationId_of payload)"

text \<open>
  Lines 95 to 97: the arguments \<^verbatim>\<open>event.payload.repository.owner.login\<close> and
  \<^verbatim>\<open>event.payload.repository.name\<close> of the dispatch call, read after the credential
  exchange has returned.
\<close>

definition dispatch_target :: "json \<Rightarrow> error + jsval \<times> jsval" where
  "dispatch_target payload =
     and_then (read_path (Some payload) [js ''repository'', js ''owner'', js ''login''])
       (\<lambda>login.
     and_then (read_path (Some payload) [js ''repository'', js ''name'']) (\<lambda>name.
     Inr (login, name)))"

text \<open>
  The handler: the checks, then the call of \<^verbatim>\<open>appAuth\<close> for the credential, then the
  dispatch call with the token.
\<close>

definition on_dependabot_alert :: "env \<Rightarrow> json \<Rightarrow> (error + unit) \<times> effect list" where
  "on_dependabot_alert env payload =
     (case dispatchPayload env payload of
        Inl e \<Rightarrow> (Inl e, [])
      | Inr (installationId, payload_out) \<Rightarrow>
          (case appAuth env installationId of
             None \<Rightarrow> (Inl AppAuthRejected, [AppAuth installationId])
           | Some token \<Rightarrow>
               (case dispatch_target payload of
                  Inl e \<Rightarrow> (Inl e, [AppAuth installationId])
                | Inr (login, name) \<Rightarrow>
                    (let req = \<lparr>owner = login, repo = name,
                                authorization = js ''token '' @ token,
                                event_type = js ''dependabot-alert-opened'',
                                client_payload = payload_out\<rparr>
                     in if githubRequest env req
                        then (Inr (), [AppAuth installationId, Dispatch req])
                        else (Inl RequestRejected, [AppAuth installationId, Dispatch req])))))"

text \<open>
  \<^verbatim>\<open>webhooks.on([...], handler)\<close> registers the handler under four names,
  \<^verbatim>\<open>dependabot_alert.<action>\<close>. \<^verbatim>\<open>webhooks.receive\<close> of the library rejects a payload
  that is falsy; it takes the action \<^verbatim>\<open>'action' in payload ? payload.action : null\<close>
  (a TypeError on a number, string or boolean); when the action is truthy it runs the
  handlers registered under the event name, a dot and the action converted to a string;
  it rejects when a handler does (with the handler's error, wrapped). \<open>action_text\<close> is
  that conversion where it can give a registered name: a string is itself, an array of
  one element converts as its element, and every other value converts to text that is
  no action name (digits, \<^verbatim>\<open>true\<close>, \<^verbatim>\<open>[object Object]\<close>, a list with commas).
  The \<^verbatim>\<open>onAny\<close> and \<^verbatim>\<open>onError\<close> handlers only write log lines, and the delivery id
  only labels them.
\<close>

definition subscribed :: "jsstring list" where
  "subscribed =
     [js ''dependabot_alert.created'', js ''dependabot_alert.reopened'',
      js ''dependabot_alert.reintroduced'', js ''dependabot_alert.auto_reopened'']"

fun event_action :: "json \<Rightarrow> error + jsval" where
  "event_action (JObj kvs) =
     Inr (case map_of kvs (js ''action'') of None \<Rightarrow> Some JNull | Some a \<Rightarrow> Some a)"
| "event_action (JArr xs) = Inr (Some JNull)"
| "event_action v = Inl TypeError"

fun action_text :: "json \<Rightarrow> jsstring option" where
  "action_text (JStr s) = Some s"
| "action_text (JArr [x]) = action_text x"
| "action_text v = None"

fun handler_registered :: "jsstring \<Rightarrow> jsval \<Rightarrow> bool" where
  "handler_registered name None = False"
| "handler_registered name (Some action) =
     (truthy (Some action) \<and>
      (case action_text action of
         None \<Rightarrow> False
       | Some a \<Rightarrow> name @ js ''.'' @ a \<in> set subscribed))"

definition receive :: "env \<Rightarrow> jsstring \<Rightarrow> json \<Rightarrow> (error + unit) \<times> effect list" where
  "receive env name payload =
     (if \<not> truthy (Some payload) then (Inl PayloadNotPassed, [])
      else case event_action payload of
          Inl e \<Rightarrow> (Inl e, [])
        | Inr action \<Rightarrow>
            if handler_registered name action then on_dependabot_alert env payload
            else (Inr (), []))"

section \<open>The request listener\<close>

datatype header = Single jsstring | Multiple "jsstring list"

record request =
  url :: "jsstring option"
  http_method :: "jsstring option"
  headers :: "jsstring \<Rightarrow> header option"
  chunks :: "bytes list"

record response =
  status :: nat
  body :: json

text \<open>\<^verbatim>\<open>Array.isArray(h) ? h[0] : h\<close>.\<close>

fun first_value :: "header option \<Rightarrow> jsstring option" where
  "first_value None = None"
| "first_value (Some (Single s)) = Some s"
| "first_value (Some (Multiple [])) = None"
| "first_value (Some (Multiple (s # ss))) = Some s"

definition json_error :: "string \<Rightarrow> json" where
  "json_error code = JObj [(js ''error'', JStr (js code))]"

definition respond :: "nat \<Rightarrow> json \<Rightarrow> effect list \<Rightarrow> response \<times> effect list" where
  "respond code b trace = (\<lparr>status = code, body = b\<rparr>, trace)"

text \<open>
  Lines 117 to 164, the gates before the body is read: a response, or the delivery id,
  the event name and the signature. \<^verbatim>\<open>!v\<close> of a header value or of the URL holds when
  it is \<^verbatim>\<open>undefined\<close> or the empty string; \<^verbatim>\<open>new URL\<close> throws on text that is no URL,
  and the listener's \<^verbatim>\<open>catch\<close> answers 500.
\<close>

definition request_gate :: "env \<Rightarrow> request \<Rightarrow> response + jsstring \<times> jsstring \<times> jsstring" where
  "request_gate env requestMessage =
     (case url requestMessage of
        None \<Rightarrow> Inl \<lparr>status = 400, body = json_error ''missing_url''\<rparr>
      | Some requestMessage_url \<Rightarrow>
        if requestMessage_url = []
        then Inl \<lparr>status = 400, body = json_error ''missing_url''\<rparr>
        else (case pathname_of env requestMessage_url of
          None \<Rightarrow> Inl \<lparr>status = 500, body = json_error ''internal_error''\<rparr>
        | Some pathname \<Rightarrow>
            if http_method requestMessage = Some (js ''GET'') \<and> pathname = js ''/health''
            then Inl \<lparr>status = 200, body = JObj [(js ''status'', JStr (js ''ok''))]\<rparr>
            else if http_method requestMessage \<noteq> Some (js ''POST'') \<or>
                    (pathname \<noteq> js ''/webhook'' \<and> pathname \<noteq> js ''/'')
            then Inl \<lparr>status = 404, body = json_error ''not_found''\<rparr>
            else
              (case (first_value (headers requestMessage (js ''x-github-delivery'')),
                     first_value (headers requestMessage (js ''x-github-event'')),
                     first_value (headers requestMessage (js ''x-hub-signature-256''))) of
                 (Some deliveryId, Some eventName, Some signature) \<Rightarrow>
                   if deliveryId = [] \<or> eventName = [] \<or> signature = []
                   then Inl \<lparr>status = 400, body = json_error ''missing_github_headers''\<rparr>
                   else if eventName \<noteq> js ''dependabot_alert''
                   then Inl \<lparr>status = 202,
                             body = JObj [(js ''skipped'', JStr (js ''unsupported_event'')),
                                          (js ''event'', JStr eventName)]\<rparr>
                   else Inr (deliveryId, eventName, signature)
               | _ \<Rightarrow> Inl \<lparr>status = 400, body = json_error ''missing_github_headers''\<rparr>)))"

text \<open>
  Lines 166 to 181: the chunks are added up as they arrive; the read stops at the first
  chunk that takes the total over \<^verbatim>\<open>1024 * 1024\<close> (\<open>None\<close>). The listener then calls
  \<^verbatim>\<open>requestMessage.destroy()\<close> (line 174) and after it writes the 413.
\<close>

fun read_body :: "bytes list \<Rightarrow> nat \<Rightarrow> bytes list \<Rightarrow> bytes list option" where
  "read_body [] totalBytes acc = Some acc"
| "read_body (chunk # rest) totalBytes acc =
     (if totalBytes + length chunk > 1024 * 1024 then None
      else read_body rest (totalBytes + length chunk) (acc @ [chunk]))"

definition body_length :: "request \<Rightarrow> nat" where
  "body_length requestMessage = sum_list (map length (chunks requestMessage))"

text \<open>
  Lines 185 to 213, from the signature check on. An exception anywhere in the listener
  reaches its \<^verbatim>\<open>catch\<close>, which answers 500.
\<close>

definition verify_and_receive ::
  "env \<Rightarrow> jsstring \<Rightarrow> jsstring \<Rightarrow> jsstring \<Rightarrow> response \<times> effect list" where
  "verify_and_receive env eventName signature payload =
     (case verify env payload signature of
        None \<Rightarrow> respond 500 (json_error ''internal_error'') [Verify payload signature]
      | Some False \<Rightarrow> respond 401 (json_error ''invalid_signature'') [Verify payload signature]
      | Some True \<Rightarrow>
          (case JSON_parse env payload of
             None \<Rightarrow>
               respond 400 (json_error ''invalid_json'') [Verify payload signature, Parse payload]
           | Some parsedPayload \<Rightarrow>
               (case receive env eventName parsedPayload of
                  (Inl e, trace) \<Rightarrow>
                    respond 500 (json_error ''internal_error'')
                      ([Verify payload signature, Parse payload] @ trace)
                | (Inr u, trace) \<Rightarrow>
                    respond 202 (JObj [(js ''accepted'', JBool True)])
                      ([Verify payload signature, Parse payload] @ trace))))"

definition request_listener :: "env \<Rightarrow> request \<Rightarrow> response \<times> effect list" where
  "request_listener env requestMessage =
     (case request_gate env requestMessage of
        Inl rejection \<Rightarrow> (rejection, [])
      | Inr (deliveryId, eventName, signature) \<Rightarrow>
          (case read_body (chunks requestMessage) 0 [] of
             None \<Rightarrow> respond 413 (json_error ''payload_too_large'') [Destroy]
           | Some received \<Rightarrow>
               verify_and_receive env eventName signature
                 (toString_utf8 env (concat received))))"

text \<open>
  \<^verbatim>\<open>requestMessage.destroy()\<close> destroys the socket of the connection, which the response
  shares: what the listener writes to the response after it is sent to no one. The
  listener writes its response last, so the client receives it when the trace holds no
  \<open>Destroy\<close>, and otherwise sees the connection closed.
\<close>

definition received_by_client :: "response \<times> effect list \<Rightarrow> response option" where
  "received_by_client run =
     (if list_ex is_destroy (snd run) then None else Some (fst run))"

section \<open>The scenarios\<close>

text \<open>
  The body of the first scenario of the specification and its parse; the same delivery
  with an action the handler is registered for, and with one it is not; alerts whose
  package has no ecosystem; a created alert with no repository; and text that is no JSON.
\<close>

definition scenario1_body :: bytes where
  \<open>scenario1_body = ''{"alert":{"number":123,"dependency":{"package":{"name":"minimatch","ecosystem":"npm"}},"security_advisory":{"ghsa_id":"GHSA-xxxx","vulnerabilities":[{"package":{"name":"brace-expansion"}}]},"security_vulnerability":{"severity":"high"}},"installation":{"id":1},"repository":{"owner":{"login":"acme"},"name":"widgets"}}''\<close>

definition scenario1_alert :: "jsstring \<times> json" where
  "scenario1_alert =
     (js ''alert'', JObj
       [(js ''number'', JNum 123),
        (js ''dependency'', JObj
          [(js ''package'', JObj
             [(js ''name'', JStr (js ''minimatch'')), (js ''ecosystem'', JStr (js ''npm''))])]),
        (js ''security_advisory'', JObj
          [(js ''ghsa_id'', JStr (js ''GHSA-xxxx'')),
           (js ''vulnerabilities'', JArr
             [JObj [(js ''package'', JObj [(js ''name'', JStr (js ''brace-expansion''))])]])]),
        (js ''security_vulnerability'', JObj [(js ''severity'', JStr (js ''high''))])])"

definition scenario1_installation :: "jsstring \<times> json" where
  "scenario1_installation = (js ''installation'', JObj [(js ''id'', JNum 1)])"

definition scenario1_repository :: "jsstring \<times> json" where
  "scenario1_repository =
     (js ''repository'', JObj
       [(js ''owner'', JObj [(js ''login'', JStr (js ''acme''))]),
        (js ''name'', JStr (js ''widgets''))])"

definition scenario1_json :: json where
  "scenario1_json = JObj [scenario1_alert, scenario1_installation, scenario1_repository]"

definition created_body :: bytes where
  \<open>created_body = ''{"action":"created","alert":{"number":123,"dependency":{"package":{"name":"minimatch","ecosystem":"npm"}},"security_advisory":{"ghsa_id":"GHSA-xxxx","vulnerabilities":[{"package":{"name":"brace-expansion"}}]},"security_vulnerability":{"severity":"high"}},"installation":{"id":1},"repository":{"owner":{"login":"acme"},"name":"widgets"}}''\<close>

definition scenario1_with_action :: "jsstring \<Rightarrow> json" where
  "scenario1_with_action action =
     JObj [(js ''action'', JStr action),
           scenario1_alert, scenario1_installation, scenario1_repository]"

definition dismissed_body :: bytes where
  \<open>dismissed_body = ''{"action":"dismissed","alert":{"number":123,"dependency":{"package":{"name":"minimatch","ecosystem":"npm"}},"security_advisory":{"ghsa_id":"GHSA-xxxx","vulnerabilities":[{"package":{"name":"brace-expansion"}}]},"security_vulnerability":{"severity":"high"}},"installation":{"id":1},"repository":{"owner":{"login":"acme"},"name":"widgets"}}''\<close>

definition dismissed_without_ecosystem_body :: bytes where
  \<open>dismissed_without_ecosystem_body = ''{"action":"dismissed","alert":{"number":123,"dependency":{"package":{"name":"minimatch"}},"security_advisory":{"ghsa_id":"GHSA-xxxx","vulnerabilities":[{"package":{"name":"brace-expansion"}}]},"security_vulnerability":{"severity":"high"}},"installation":{"id":1},"repository":{"owner":{"login":"acme"},"name":"widgets"}}''\<close>

definition alert_without_ecosystem :: "jsstring \<times> json" where
  "alert_without_ecosystem =
     (js ''alert'', JObj
       [(js ''number'', JNum 123),
        (js ''dependency'', JObj
          [(js ''package'', JObj [(js ''name'', JStr (js ''minimatch''))])]),
        (js ''security_advisory'', JObj
          [(js ''ghsa_id'', JStr (js ''GHSA-xxxx'')),
           (js ''vulnerabilities'', JArr
             [JObj [(js ''package'', JObj [(js ''name'', JStr (js ''brace-expansion''))])]])]),
        (js ''security_vulnerability'', JObj [(js ''severity'', JStr (js ''high''))])])"

definition without_ecosystem :: "jsstring \<Rightarrow> json" where
  "without_ecosystem action =
     JObj [(js ''action'', JStr action),
           alert_without_ecosystem, scenario1_installation, scenario1_repository]"

definition created_without_ecosystem_body :: bytes where
  \<open>created_without_ecosystem_body = ''{"action":"created","alert":{"number":123,"dependency":{"package":{"name":"minimatch"}},"security_advisory":{"ghsa_id":"GHSA-xxxx","vulnerabilities":[{"package":{"name":"brace-expansion"}}]},"security_vulnerability":{"severity":"high"}},"installation":{"id":1},"repository":{"owner":{"login":"acme"},"name":"widgets"}}''\<close>

definition no_repository_body :: bytes where
  \<open>no_repository_body = ''{"action":"created","alert":{"number":123,"dependency":{"package":{"name":"minimatch","ecosystem":"npm"}},"security_advisory":{"ghsa_id":"GHSA-xxxx","vulnerabilities":[{"package":{"name":"brace-expansion"}}]},"security_vulnerability":{"severity":"high"}},"installation":{"id":1}}''\<close>

definition no_repository_json :: json where
  "no_repository_json =
     JObj [(js ''action'', JStr (js ''created'')), scenario1_alert, scenario1_installation]"

definition scenario1_payload :: DispatchPayload where
  "scenario1_payload =
     \<lparr>alert_number = Some (JNum 123), ghsa_id = Some (JStr (js ''GHSA-xxxx'')),
      severity = Some (JStr (js ''high'')), ecosystem = js ''npm'',
      dependencies = [js ''brace-expansion'', js ''minimatch'']\<rparr>"

definition scenario1_dispatch :: "jsstring \<Rightarrow> DispatchRequest" where
  "scenario1_dispatch token =
     \<lparr>owner = Some (JStr (js ''acme'')), repo = Some (JStr (js ''widgets'')),
      authorization = js ''token '' @ token,
      event_type = js ''dependabot-alert-opened'',
      client_payload = scenario1_payload\<rparr>"

definition malformed_body :: bytes where
  \<open>malformed_body = ''{"alert":''\<close>

text \<open>
  An environment for the scenarios: URLs that are paths, ASCII bodies, one signature
  that verifies, the parses above, comparison by code units, lower case of ASCII
  letters, a credential exchange and a dispatch call that succeed.
\<close>

definition ascii_toLowerCase :: "jsstring \<Rightarrow> jsstring" where
  "ascii_toLowerCase s = map (\<lambda>c. if 0x41 \<le> c \<and> c \<le> 0x5A then c + 0x20 else c) s"

definition scenario_parse :: "(bytes \<times> json) list" where
  "scenario_parse =
     [(scenario1_body, scenario1_json),
      (created_body, scenario1_with_action (js ''created'')),
      (dismissed_body, scenario1_with_action (js ''dismissed'')),
      (dismissed_without_ecosystem_body, without_ecosystem (js ''dismissed'')),
      (created_without_ecosystem_body, without_ecosystem (js ''created'')),
      (no_repository_body, no_repository_json)]"

definition scenario_env :: env where
  "scenario_env =
     \<lparr>pathname_of = Some,
      toString_utf8 = js,
      verify = (\<lambda>payload signature.
         if payload = [] then None else Some (signature = js ''sha256=valid'')),
      JSON_parse = (\<lambda>text. map_of (map (\<lambda>(b, v). (js b, v)) scenario_parse) text),
      localeCompare = codeunit_compare,
      toLowerCase = ascii_toLowerCase,
      appAuth = (\<lambda>installationId. Some (js ''ghs_token'')),
      githubRequest = (\<lambda>req. True)\<rparr>"

definition webhook_headers :: "jsstring \<Rightarrow> jsstring \<Rightarrow> header option" where
  "webhook_headers signature =
     map_of [(js ''x-github-delivery'', Single (js ''72d3162e'')),
             (js ''x-github-event'', Single (js ''dependabot_alert'')),
             (js ''x-hub-signature-256'', Single signature)]"

definition webhook_request :: "jsstring \<Rightarrow> bytes list \<Rightarrow> request" where
  "webhook_request signature body_chunks =
     \<lparr>url = Some (js ''/webhook''), http_method = Some (js ''POST''),
      headers = webhook_headers signature, chunks = body_chunks\<rparr>"

section \<open>Properties of the normalization\<close>

subsection \<open>Set order and sorting\<close>

lemma set_from_Set: "set (from_Set xs) = set xs"
  by (induction xs rule: from_Set.induct) auto

lemma distinct_from_Set: "distinct (from_Set xs)"
  by (induction xs rule: from_Set.induct) (auto simp: set_from_Set)

lemma from_Set_distinct: "distinct xs \<Longrightarrow> from_Set xs = xs"
proof (induction xs)
  case Nil
  then show ?case by simp
next
  case (Cons x xs)
  then have "filter (\<lambda>y. y \<noteq> x) xs = xs"
    by (auto intro: filter_True)
  with Cons show ?case by simp
qed

lemma set_js_insert: "set (js_insert cmp x ys) = insert x (set ys)"
  by (induction ys) auto

lemma set_js_sort: "set (js_sort cmp xs) = set xs"
  by (induction xs) (auto simp: js_sort_def set_js_insert)

lemma distinct_js_insert: "distinct (js_insert cmp x ys) \<longleftrightarrow> x \<notin> set ys \<and> distinct ys"
  by (induction ys) (auto simp: set_js_insert)

lemma distinct_js_sort: "distinct (js_sort cmp xs) \<longleftrightarrow> distinct xs"
proof (induction xs)
  case Nil
  then show ?case by (simp add: js_sort_def)
next
  case (Cons x xs)
  have "js_sort cmp (x # xs) = js_insert cmp x (js_sort cmp xs)"
    by (simp add: js_sort_def)
  with Cons show ?case
    by (simp add: distinct_js_insert set_js_sort)
qed

lemma sorted_js_insert:
  assumes "consistent_comparator cmp" "sorted_wrt (\<lambda>a b. cmp a b \<le> 0) ys"
  shows "sorted_wrt (\<lambda>a b. cmp a b \<le> 0) (js_insert cmp x ys)"
  using assms(2)
proof (induction ys)
  case Nil
  then show ?case by simp
next
  case (Cons y ys)
  from assms(1) have tot: "\<And>a b. cmp a b \<le> 0 \<or> cmp b a \<le> 0"
    and tr: "\<And>a b c. cmp a b \<le> 0 \<Longrightarrow> cmp b c \<le> 0 \<Longrightarrow> cmp a c \<le> 0"
    unfolding consistent_comparator_def by blast+
  show ?case
  proof (cases "cmp x y \<le> 0")
    case True
    with Cons.prems tr show ?thesis by auto
  next
    case False
    with tot have "cmp y x \<le> 0" by blast
    with False Cons show ?thesis by (auto simp: set_js_insert)
  qed
qed

lemma sorted_js_sort:
  assumes "consistent_comparator cmp"
  shows "sorted_wrt (\<lambda>a b. cmp a b \<le> 0) (js_sort cmp xs)"
proof (induction xs)
  case Nil
  then show ?case by (simp add: js_sort_def)
next
  case (Cons x xs)
  have "js_sort cmp (x # xs) = js_insert cmp x (js_sort cmp xs)"
    by (simp add: js_sort_def)
  with Cons sorted_js_insert [OF assms] show ?case by simp
qed

lemma js_sort_sorted: "sorted_wrt (\<lambda>a b. cmp a b \<le> 0) xs \<Longrightarrow> js_sort cmp xs = xs"
proof (induction xs)
  case Nil
  then show ?case by (simp add: js_sort_def)
next
  case (Cons x xs)
  then have "js_sort cmp xs = xs" by simp
  then have "js_sort cmp (x # xs) = js_insert cmp x xs"
    by (simp add: js_sort_def)
  with Cons.prems show ?case by (cases xs) auto
qed

subsection \<open>Trimming\<close>

lemma dropWhile_self: "xs = [] \<or> \<not> P (hd xs) \<Longrightarrow> dropWhile P xs = xs"
  by (cases xs) auto

lemma trim_fixed:
  assumes "dropWhile isWhiteSpace r = r" "dropWhile isWhiteSpace (rev r) = rev r"
  shows "trim r = r"
  using assms by (simp add: trim_def)

lemma trim_ends:
  "dropWhile isWhiteSpace (trim s) = trim s \<and> dropWhile isWhiteSpace (rev (trim s)) = rev (trim s)"
proof -
  define t where "t = dropWhile isWhiteSpace s"
  define u where "u = dropWhile isWhiteSpace (rev t)"
  have r: "trim s = rev u" by (simp add: trim_def t_def u_def)
  have "rev (takeWhile isWhiteSpace (rev t) @ u) = rev (rev t)"
    unfolding u_def by (simp only: takeWhile_dropWhile_id)
  then have t: "t = rev u @ rev (takeWhile isWhiteSpace (rev t))" by simp
  have "rev u = [] \<or> \<not> isWhiteSpace (hd (rev u))"
  proof (cases "rev u = []")
    case True
    then show ?thesis by simp
  next
    case False
    then have "hd t = hd (rev u)" by (subst t) simp
    moreover have "t \<noteq> []" using False by (subst t) simp
    then have "\<not> isWhiteSpace (hd t)" unfolding t_def by (rule hd_dropWhile)
    ultimately show ?thesis by simp
  qed
  then have "dropWhile isWhiteSpace (rev u) = rev u" by (rule dropWhile_self)
  moreover have "dropWhile isWhiteSpace u = u" unfolding u_def by simp
  ultimately show ?thesis by (simp add: r)
qed

lemma trim_trim: "trim (trim s) = trim s"
  using trim_ends [of s] by (simp add: trim_fixed)

lemma trim_not_blank:
  assumes "trim s \<noteq> []"
  shows "\<not> whitespace_only (trim s)"
proof
  assume "whitespace_only (trim s)"
  then have "dropWhile isWhiteSpace (trim s) = []"
    by (simp add: whitespace_only_def list_all_iff)
  with trim_ends [of s] assms show False by simp
qed

lemma strings_of_JStr: "strings_of (map (\<lambda>d. Some (JStr d)) ds) = ds"
  by (induction ds) auto

lemma set_strings_of: "set (strings_of names) = {s. Some (JStr s) \<in> set names}"
  by (induction names rule: strings_of.induct) auto

subsection \<open>The comparator of the examples\<close>

lemma codeunit_compare_total: "codeunit_compare a b \<le> 0 \<or> codeunit_compare b a \<le> 0"
  by (induction a b rule: codeunit_compare.induct) auto

lemma codeunit_compare_trans:
  "codeunit_compare a b \<le> 0 \<Longrightarrow> codeunit_compare b c \<le> 0 \<Longrightarrow> codeunit_compare a c \<le> 0"
proof (induction a b arbitrary: c rule: codeunit_compare.induct)
  case 1
  then show ?case by simp
next
  case (2 y ys)
  then show ?case by (cases c) auto
next
  case (3 x xs)
  then show ?case by simp
next
  case (4 x xs y ys)
  then show ?case by (cases c) (auto split: if_splits)
qed

lemma consistent_codeunit_compare: "consistent_comparator codeunit_compare"
  unfolding consistent_comparator_def
  using codeunit_compare_total codeunit_compare_trans by blast

lemma dependencies_filtered_trimmed:
  "d \<in> set (dependencies_filtered names) \<Longrightarrow> d \<noteq> [] \<and> (\<exists>s. Some (JStr s) \<in> set names \<and> d = trim s)"
  by (auto simp: dependencies_filtered_def set_strings_of)

lemma set_normalizedDependencies:
  "set (normalizedDependencies cmp names) = set (dependencies_filtered names)"
  by (simp add: normalizedDependencies_def set_js_sort set_from_Set)

lemma normalizedDependencies_example:
  "normalizedDependencies codeunit_compare
     [Some (JStr (js '' minimatch '')), None, Some JNull, Some (JStr (js ''  '')),
      Some (JStr (js ''brace-expansion'')), Some (JStr (js ''minimatch''))]
   = [js ''brace-expansion'', js ''minimatch'']"
  by (simp add: normalizedDependencies_def dependencies_filtered_def js_sort_def trim_def
      isWhiteSpace_def js_def)

lemma dependencies_filtered_fixed:
  assumes "\<forall>d \<in> set ds. d \<noteq> [] \<and> trim d = d"
  shows "dependencies_filtered (map (\<lambda>d. Some (JStr d)) ds) = ds"
proof -
  from assms have "map trim ds = ds" by (simp add: map_idI)
  moreover from assms have "filter (\<lambda>name. name \<noteq> []) ds = ds" by simp
  ultimately show ?thesis by (simp add: dependencies_filtered_def strings_of_JStr)
qed

subsection \<open>Stated properties of the normalization\<close>

text \<open>
  C3. For every array of names (strings or not) and every consistent comparator in the
  place of \<^verbatim>\<open>localeCompare\<close>, the normalized list has no two equal elements, is sorted
  ascending by the comparator, and each of its entries is the trimmed form of a string
  of the input, not empty and not made of white space only.
\<close>

theorem normalizedDependencies_distinct_sorted_trimmed:
  assumes "consistent_comparator cmp"
  shows "distinct (normalizedDependencies cmp names) \<and>
         sorted_wrt (\<lambda>a b. cmp a b \<le> 0) (normalizedDependencies cmp names) \<and>
         (\<forall>d \<in> set (normalizedDependencies cmp names).
            d \<noteq> [] \<and> \<not> whitespace_only d \<and> (\<exists>s. Some (JStr s) \<in> set names \<and> d = trim s))"
proof (intro conjI ballI)
  show "distinct (normalizedDependencies cmp names)"
    by (simp add: normalizedDependencies_def distinct_js_sort distinct_from_Set)
  show "sorted_wrt (\<lambda>a b. cmp a b \<le> 0) (normalizedDependencies cmp names)"
    unfolding normalizedDependencies_def using assms by (rule sorted_js_sort)
next
  fix d assume "d \<in> set (normalizedDependencies cmp names)"
  then have d: "d \<noteq> [] \<and> (\<exists>s. Some (JStr s) \<in> set names \<and> d = trim s)"
    by (simp add: set_normalizedDependencies dependencies_filtered_trimmed)
  then show "d \<noteq> []" by simp
  from d show "\<exists>s. Some (JStr s) \<in> set names \<and> d = trim s" by simp
  from d show "\<not> whitespace_only d" using trim_not_blank by blast
qed

theorem normalizedDependencies_distinct_sorted_trimmed_witness:
  "consistent_comparator codeunit_compare \<and>
   normalizedDependencies codeunit_compare
     [Some (JStr (js '' minimatch '')), None, Some JNull, Some (JStr (js ''  '')),
      Some (JStr (js ''brace-expansion'')), Some (JStr (js ''minimatch''))]
   = [js ''brace-expansion'', js ''minimatch''] \<and>
   distinct [js ''brace-expansion'', js ''minimatch''] \<and>
   sorted_wrt (\<lambda>a b. codeunit_compare a b \<le> 0) [js ''brace-expansion'', js ''minimatch''] \<and>
   list_all (\<lambda>d. d \<noteq> [] \<and> \<not> whitespace_only d) [js ''brace-expansion'', js ''minimatch'']"
proof -
  note c = consistent_codeunit_compare
  note e = normalizedDependencies_example
  have "distinct [js ''brace-expansion'', js ''minimatch''] \<and>
        sorted_wrt (\<lambda>a b. codeunit_compare a b \<le> 0) [js ''brace-expansion'', js ''minimatch''] \<and>
        (\<forall>d \<in> set [js ''brace-expansion'', js ''minimatch''].
           d \<noteq> [] \<and> \<not> whitespace_only d)"
    using normalizedDependencies_distinct_sorted_trimmed [OF c, of
     "[Some (JStr (js '' minimatch '')), None, Some JNull, Some (JStr (js ''  '')),
      Some (JStr (js ''brace-expansion'')), Some (JStr (js ''minimatch''))]"]
    unfolding e by blast
  with c e show ?thesis unfolding list_all_iff by blast
qed

text \<open>
  C4. Normalization is idempotent: for every input and every consistent comparator,
  normalizing the normalized list gives that list again.
\<close>

theorem normalizedDependencies_idempotent:
  assumes "consistent_comparator cmp"
  shows "normalizedDependencies cmp (map (\<lambda>d. Some (JStr d)) (normalizedDependencies cmp names))
         = normalizedDependencies cmp names"
proof -
  let ?out = "normalizedDependencies cmp names"
  have "\<forall>d \<in> set ?out. d \<noteq> [] \<and> trim d = d"
    using dependencies_filtered_trimmed [of _ names] trim_trim
    by (auto simp: set_normalizedDependencies)
  then have "dependencies_filtered (map (\<lambda>d. Some (JStr d)) ?out) = ?out"
    by (rule dependencies_filtered_fixed)
  moreover have "from_Set ?out = ?out"
    by (simp add: from_Set_distinct normalizedDependencies_def distinct_js_sort distinct_from_Set)
  moreover have "js_sort cmp ?out = ?out"
    unfolding normalizedDependencies_def
    using assms by (intro js_sort_sorted sorted_js_sort)
  ultimately show ?thesis by (simp add: normalizedDependencies_def [of cmp "map _ _"])
qed

theorem normalizedDependencies_idempotent_witness:
  "consistent_comparator codeunit_compare \<and>
   normalizedDependencies codeunit_compare
     (map (\<lambda>d. Some (JStr d)) [js ''brace-expansion'', js ''minimatch''])
   = [js ''brace-expansion'', js ''minimatch'']"
  using normalizedDependencies_idempotent [OF consistent_codeunit_compare, of
     "[Some (JStr (js '' minimatch '')), None, Some JNull, Some (JStr (js ''  '')),
      Some (JStr (js ''brace-expansion'')), Some (JStr (js ''minimatch''))]"]
  unfolding normalizedDependencies_example
  using consistent_codeunit_compare by blast

section \<open>Properties of the listener\<close>

subsection \<open>Literals\<close>

lemma of_char_nat_less: "(of_char c :: nat) < 65536"
proof -
  have "(of_char c :: nat) mod 256 < 256" by simp
  then have "(of_char c :: nat) < 256" by (simp only: of_char_mod_256)
  then show ?thesis by arith
qed

lemma of_char_word_eq_iff: "(of_char c :: 16 word) = of_char d \<longleftrightarrow> c = d"
proof -
  have "(of_char c :: 16 word) = of_char d
        \<longleftrightarrow> (of_nat (of_char c) :: 16 word) = of_nat (of_char d)"
    by (simp only: of_nat_of_char)
  also have "\<dots> \<longleftrightarrow> take_bit 16 (of_char c :: nat) = take_bit 16 (of_char d :: nat)"
    by (simp add: word_of_nat_eq_iff)
  also have "\<dots> \<longleftrightarrow> (of_char c :: nat) = of_char d"
    using of_char_nat_less [of c] of_char_nat_less [of d]
    by (simp add: take_bit_nat_eq_self)
  finally show ?thesis by simp
qed

lemma js_eq_iff: "js a = js b \<longleftrightarrow> a = b"
  unfolding js_def
  by (rule inj_map_eq_map) (simp add: inj_def of_char_word_eq_iff)

lemma js_Nil: "js a = [] \<longleftrightarrow> a = []" "[] = js a \<longleftrightarrow> a = []"
  by (auto simp: js_def)

lemma js_append: "js (a @ b) = js a @ js b"
  by (simp add: js_def)

subsection \<open>The gates and the body\<close>

lemma read_body_eq:
  "t \<le> 1024 * 1024 \<Longrightarrow> read_body cs t acc =
     (if 1024 * 1024 < t + sum_list (map length cs) then None else Some (acc @ cs))"
  by (induction cs arbitrary: t acc) auto

lemma request_gate_Inr:
  assumes "request_gate env requestMessage = Inr (deliveryId, eventName, signature)"
  shows "eventName = js ''dependabot_alert'' \<and> deliveryId \<noteq> [] \<and> signature \<noteq> []"
  using assms
  by (auto simp: request_gate_def split: option.splits if_splits)

lemma request_gate_Inl:
  assumes "request_gate env requestMessage = Inl rejection"
  shows "status rejection \<in> {200, 202, 400, 404, 500}"
  using assms
  by (auto simp: request_gate_def split: option.splits if_splits)

lemma listener_rejected:
  "request_gate env requestMessage = Inl rejection \<Longrightarrow>
   request_listener env requestMessage = (rejection, [])"
  by (simp add: request_listener_def)

lemma listener_too_large:
  "request_gate env requestMessage = Inr (deliveryId, eventName, signature) \<Longrightarrow>
   1024 * 1024 < body_length requestMessage \<Longrightarrow>
   request_listener env requestMessage =
     respond 413 (json_error ''payload_too_large'') [Destroy]"
  by (simp add: request_listener_def read_body_eq body_length_def)

lemma listener_received:
  "request_gate env requestMessage = Inr (deliveryId, eventName, signature) \<Longrightarrow>
   body_length requestMessage \<le> 1024 * 1024 \<Longrightarrow>
   request_listener env requestMessage =
     verify_and_receive env (js ''dependabot_alert'') signature
       (toString_utf8 env (concat (chunks requestMessage)))"
  using request_gate_Inr [of env requestMessage deliveryId eventName signature]
  by (simp add: request_listener_def read_body_eq body_length_def)

subsection \<open>The calls of one delivery\<close>

lemma handler_trace:
  assumes "on_dependabot_alert env payload = (result, trace)"
  shows "(trace = [] \<and> (\<exists>e. result = Inl e \<and> dispatchPayload env payload = Inl e)) \<or>
         (\<exists>i p. dispatchPayload env payload = Inr (i, p) \<and>
            ((trace = [AppAuth i] \<and> result = Inl AppAuthRejected \<and> appAuth env i = None) \<or>
             (\<exists>token e. trace = [AppAuth i] \<and> result = Inl e \<and> appAuth env i = Some token \<and>
                dispatch_target payload = Inl e) \<or>
             (\<exists>token login name. appAuth env i = Some token \<and>
                dispatch_target payload = Inr (login, name) \<and>
                trace = [AppAuth i, Dispatch
                  \<lparr>owner = login, repo = name, authorization = js ''token '' @ token,
                   event_type = js ''dependabot-alert-opened'', client_payload = p\<rparr>] \<and>
                result = (if githubRequest env
                  \<lparr>owner = login, repo = name, authorization = js ''token '' @ token,
                   event_type = js ''dependabot-alert-opened'', client_payload = p\<rparr>
                  then Inr () else Inl RequestRejected))))"
  using assms
  by (auto simp: on_dependabot_alert_def Let_def split: sum.splits option.splits prod.splits if_splits)

lemma event_action_truthy: "event_action payload = Inr action \<Longrightarrow> truthy (Some payload)"
  by (cases payload) auto

lemma receive_registered:
  "event_action payload = Inr action \<Longrightarrow> handler_registered name action \<Longrightarrow>
   receive env name payload = on_dependabot_alert env payload"
  by (simp add: receive_def event_action_truthy)

lemma receive_unregistered:
  "\<not> (\<exists>action. event_action payload = Inr action \<and> handler_registered name action) \<Longrightarrow>
   \<exists>result. receive env name payload = (result, [])"
  by (auto simp: receive_def split: sum.splits)

lemma receive_trace:
  assumes "receive env name payload = (result, trace)"
  shows "trace = [] \<or> (\<exists>i. trace = [AppAuth i] \<and> (\<exists>e. result = Inl e)) \<or>
         (\<exists>i r token. trace = [AppAuth i, Dispatch r] \<and> appAuth env i = Some token \<and>
            authorization r = js ''token '' @ token)"
proof (cases "\<exists>action. event_action payload = Inr action \<and> handler_registered name action")
  case True
  then have "on_dependabot_alert env payload = (result, trace)"
    using assms receive_registered by auto
  from handler_trace [OF this] show ?thesis by auto
next
  case False
  from receive_unregistered [OF this, of env] assms show ?thesis by auto
qed

lemma receive_accepted:
  assumes "receive env name payload = (Inr u, trace)"
    and "event_action payload = Inr action" "handler_registered name action"
  shows "\<exists>i r. trace = [AppAuth i, Dispatch r]"
proof -
  have "on_dependabot_alert env payload = (Inr u, trace)"
    using assms receive_registered by auto
  from handler_trace [OF this] show ?thesis by auto
qed

lemma receive_credential:
  assumes "receive env name payload = (result, trace)"
    and "AppAuth i \<in> set trace" "appAuth env i = Some token"
    and "dispatch_target payload = Inr target"
  shows "\<exists>r. trace = [AppAuth i, Dispatch r]"
proof (cases "\<exists>action. event_action payload = Inr action \<and> handler_registered name action")
  case True
  then have "on_dependabot_alert env payload = (result, trace)"
    using assms receive_registered by auto
  from handler_trace [OF this] assms(2-4) show ?thesis by auto
next
  case False
  from receive_unregistered [OF this, of env] assms show ?thesis by auto
qed

lemma receive_no_verify:
  assumes "receive env name payload = (result, rest)"
  shows "Verify p s \<notin> set rest \<and> Parse p \<notin> set rest"
  using receive_trace [OF assms] by auto

lemma verify_and_receive_cases:
  assumes "verify_and_receive env name signature payload = (response, trace)"
  shows "(verify env payload signature = None \<and> trace = [Verify payload signature] \<and>
            response = \<lparr>status = 500, body = json_error ''internal_error''\<rparr>) \<or>
         (verify env payload signature = Some False \<and> trace = [Verify payload signature] \<and>
            response = \<lparr>status = 401, body = json_error ''invalid_signature''\<rparr>) \<or>
         (verify env payload signature = Some True \<and> JSON_parse env payload = None \<and>
            trace = [Verify payload signature, Parse payload] \<and>
            response = \<lparr>status = 400, body = json_error ''invalid_json''\<rparr>) \<or>
         (\<exists>parsed result rest. verify env payload signature = Some True \<and>
            JSON_parse env payload = Some parsed \<and>
            receive env name parsed = (result, rest) \<and>
            trace = [Verify payload signature, Parse payload] @ rest \<and>
            ((\<exists>e. result = Inl e) \<and>
               response = \<lparr>status = 500, body = json_error ''internal_error''\<rparr> \<or>
             result = Inr () \<and>
               response = \<lparr>status = 202, body = JObj [(js ''accepted'', JBool True)]\<rparr>))"
  using assms
  by (auto simp: verify_and_receive_def respond_def
      split: option.splits bool.splits sum.splits prod.splits)

lemma listener_cases:
  assumes "request_listener env requestMessage = (response, trace)"
  shows "(trace = [] \<and> request_gate env requestMessage = Inl response) \<or>
         (trace = [Destroy] \<and>
            response = \<lparr>status = 413, body = json_error ''payload_too_large''\<rparr> \<and>
            1024 * 1024 < body_length requestMessage \<and>
            (\<exists>d e s. request_gate env requestMessage = Inr (d, e, s))) \<or>
         (\<exists>d s. request_gate env requestMessage = Inr (d, js ''dependabot_alert'', s) \<and>
            body_length requestMessage \<le> 1024 * 1024 \<and>
            verify_and_receive env (js ''dependabot_alert'') s
              (toString_utf8 env (concat (chunks requestMessage))) = (response, trace))"
proof (cases "request_gate env requestMessage")
  case (Inl rejection)
  with assms listener_rejected [OF Inl] show ?thesis by simp
next
  case (Inr t)
  obtain d e s where t: "t = (d, e, s)" by (cases t)
  with Inr have g: "request_gate env requestMessage = Inr (d, e, s)" by simp
  from request_gate_Inr [OF g] have e: "e = js ''dependabot_alert''" by simp
  show ?thesis
  proof (cases "1024 * 1024 < body_length requestMessage")
    case True
    from listener_too_large [OF g True] assms g True show ?thesis
      by (auto simp: respond_def)
  next
    case False
    then have le: "body_length requestMessage \<le> 1024 * 1024" by simp
    from listener_received [OF g le] assms g e le show ?thesis by auto
  qed
qed

lemma oversized_body_not_read:
  assumes "1024 * 1024 < body_length requestMessage"
  shows "snd (request_listener env requestMessage) = [] \<or>
         snd (request_listener env requestMessage) = [Destroy]"
proof -
  obtain response trace where r: "request_listener env requestMessage = (response, trace)"
    by (cases "request_listener env requestMessage")
  from listener_cases [OF r] assms show ?thesis by (auto simp: r)
qed

lemma body_within_limit_not_413:
  assumes "body_length requestMessage \<le> 1024 * 1024"
  shows "status (fst (request_listener env requestMessage)) \<noteq> 413"
proof -
  obtain response trace where r: "request_listener env requestMessage = (response, trace)"
    by (cases "request_listener env requestMessage")
  from listener_cases [OF r] assms consider
      (gate) "request_gate env requestMessage = Inl response"
    | (vr) s where "verify_and_receive env (js ''dependabot_alert'') s
        (toString_utf8 env (concat (chunks requestMessage))) = (response, trace)"
    by auto
  then have "status response \<noteq> 413"
  proof cases
    case gate
    from request_gate_Inl [OF gate] show ?thesis by auto
  next
    case vr
    from verify_and_receive_cases [OF vr] show ?thesis by auto
  qed
  then show ?thesis by (simp add: r)
qed

lemma answered_unless_destroyed:
  assumes "request_listener env requestMessage = (response, trace)"
    and "status response \<noteq> 413"
  shows "received_by_client (request_listener env requestMessage) = Some response"
proof -
  have "\<not> list_ex is_destroy rest" if "receive env name parsed = (result, rest)"
    for name parsed result rest
    using receive_trace [OF that] by auto
  with listener_cases [OF assms(1)] assms(2) have "\<not> list_ex is_destroy trace"
    by (auto dest!: verify_and_receive_cases)
  with assms(1) show ?thesis by (simp add: received_by_client_def)
qed

lemma handler_registered_iff:
  "handler_registered (js ''dependabot_alert'') action \<longleftrightarrow>
     (\<exists>a name. action = Some a \<and> action_text a = Some name \<and>
        name \<in> {js ''created'', js ''reopened'', js ''reintroduced'', js ''auto_reopened''})"
proof -
  have names: "js ''dependabot_alert.created'' = js ''dependabot_alert'' @ js ''.'' @ js ''created''"
    "js ''dependabot_alert.reopened'' = js ''dependabot_alert'' @ js ''.'' @ js ''reopened''"
    "js ''dependabot_alert.reintroduced'' =
       js ''dependabot_alert'' @ js ''.'' @ js ''reintroduced''"
    "js ''dependabot_alert.auto_reopened'' =
       js ''dependabot_alert'' @ js ''.'' @ js ''auto_reopened''"
    by (simp_all add: js_append [symmetric])
  have text_truthy: "truthy (Some a)" if "action_text a = Some name" "name \<noteq> []" for a name
    using that by (induction a rule: action_text.induct) auto
  have nonempty: "name \<noteq> []"
    if "name \<in> {js ''created'', js ''reopened'', js ''reintroduced'', js ''auto_reopened''}"
    for name
    using that by (auto simp: js_Nil)
  show ?thesis
  proof (cases action)
    case None
    then show ?thesis by simp
  next
    case (Some a)
    show ?thesis
    proof (cases "action_text a")
      case None
      with Some show ?thesis by simp
    next
      case (Some name)
      with \<open>action = Some a\<close> text_truthy [OF Some] nonempty [of name] show ?thesis
        by (auto simp: subscribed_def names)
    qed
  qed
qed

lemma filter_outbound_simps:
  "filter is_outbound ([Verify p s, Parse p] @ rest) = filter is_outbound rest"
  "filter is_dispatch ([Verify p s, Parse p] @ rest) = filter is_dispatch rest"
  "filter is_appAuth ([Verify p s, Parse p] @ rest) = filter is_appAuth rest"
  by simp_all

subsection \<open>The checks of the handler\<close>

lemma normalizedDependencies_Nil:
  "normalizedDependencies cmp names = [] \<longleftrightarrow> dependencies_filtered names = []"
  using set_normalizedDependencies [of cmp names] by (metis set_empty)

lemma checked_dependencies_Inl:
  "(\<exists>e. checked_dependencies cmp names = Inl e) \<longleftrightarrow> dependencies_filtered names = []"
  by (simp add: checked_dependencies_def normalizedDependencies_Nil)

lemma dispatchPayload_Inr:
  assumes "dispatchPayload env payload = Inr x"
  shows "\<not> validation_failure payload"
proof -
  from assms obtain p eco names normalized i where
    p: "directPackage_of payload = Inr p" "truthy p" and
    eco: "get_prop p (js ''ecosystem'') = Inr eco" "truthy eco" and
    names: "dependency_names p payload = Inr names"
      "checked_dependencies (localeCompare env) names = Inr normalized" and
    i: "installationId_of payload = Inr i" "truthy i"
    unfolding dispatchPayload_def and_then_def
    by (auto split: sum.splits if_splits)
  from names(2) have "dependencies_filtered names \<noteq> []"
    using checked_dependencies_Inl [of "localeCompare env" names] by auto
  with p eco names(1) i show ?thesis
    by (simp add: validation_failure_def missing_def and_then_def)
qed

lemma validation_failure_throws:
  "validation_failure payload \<Longrightarrow> \<exists>e. dispatchPayload env payload = Inl e"
  using dispatchPayload_Inr [of env payload] by (cases "dispatchPayload env payload") auto

lemma handler_validation_failure:
  "validation_failure payload \<Longrightarrow> \<exists>e. on_dependabot_alert env payload = (Inl e, [])"
  using validation_failure_throws [of payload env] by (auto simp: on_dependabot_alert_def)

lemma strings_of_append: "strings_of (xs @ ys) = strings_of xs @ strings_of ys"
  by (induction xs rule: strings_of.induct) auto

lemma strings_of_drop: "\<not> typeof_string v \<Longrightarrow> strings_of (v # ys) = strings_of ys"
  by (cases "(v # ys)" rule: strings_of.cases) auto

lemma dependencies_filtered_drop:
  "\<not> typeof_string v \<Longrightarrow> dependencies_filtered (xs @ v # ys) = dependencies_filtered (xs @ ys)"
  by (simp add: dependencies_filtered_def strings_of_append strings_of_drop)

lemma get_prop_truthy: "truthy p \<Longrightarrow> \<exists>v. get_prop p k = Inr v"
  by (cases "(p, k)" rule: get_prop.cases) auto

subsection \<open>The scenarios, evaluated\<close>

lemma trim_minimatch: "trim (js ''minimatch'') = js ''minimatch''"
  by (simp add: trim_def js_def isWhiteSpace_def)

lemma trim_brace_expansion: "trim (js ''brace-expansion'') = js ''brace-expansion''"
  by (simp add: trim_def js_def isWhiteSpace_def)

lemma scenario1_names:
  assumes "0 < cmp (js ''minimatch'') (js ''brace-expansion'')"
  shows "checked_dependencies cmp
           [Some (JStr (js ''minimatch'')), Some (JStr (js ''brace-expansion''))]
         = Inr [js ''brace-expansion'', js ''minimatch'']"
  using assms
  by (simp add: checked_dependencies_def normalizedDependencies_def dependencies_filtered_def
      js_sort_def trim_minimatch trim_brace_expansion js_eq_iff js_Nil)

lemma scenario1_dispatchPayload:
  assumes "0 < localeCompare env (js ''minimatch'') (js ''brace-expansion'')"
    and "toLowerCase env (js ''npm'') = js ''npm''"
  shows "dispatchPayload env (scenario1_with_action action)
         = Inr (Some (JNum 1), scenario1_payload)"
  using assms(2) scenario1_names [of "localeCompare env", OF assms(1)]
  by (simp add: dispatchPayload_def directPackage_of_def dependency_names_def
      installationId_of_def vulnerability_name_def and_then_def
      scenario1_with_action_def scenario1_alert_def scenario1_installation_def
      scenario1_repository_def scenario1_payload_def js_eq_iff js_Nil)

lemma scenario1_dispatch_target:
  "dispatch_target (scenario1_with_action action)
   = Inr (Some (JStr (js ''acme'')), Some (JStr (js ''widgets'')))"
  by (simp add: dispatch_target_def and_then_def scenario1_with_action_def scenario1_alert_def
      scenario1_installation_def scenario1_repository_def js_eq_iff)

lemma subscribed_actions:
  "action \<in> {js ''created'', js ''reopened'', js ''reintroduced'', js ''auto_reopened''}
   \<Longrightarrow> handler_registered (js ''dependabot_alert'') (Some (JStr action))"
  by (auto simp: subscribed_def js_append [symmetric] js_eq_iff js_Nil)

lemma gate_webhook_request:
  "signature \<noteq> [] \<Longrightarrow> request_gate scenario_env (webhook_request signature cs) =
     Inr (js ''72d3162e'', js ''dependabot_alert'', signature)"
  by (simp add: request_gate_def scenario_env_def webhook_request_def webhook_headers_def
      js_eq_iff js_Nil)

lemma body_length_webhook_request:
  "body_length (webhook_request signature cs) = sum_list (map length cs)"
  by (simp add: body_length_def webhook_request_def)

lemma chunks_webhook_request: "chunks (webhook_request signature cs) = cs"
  by (simp add: webhook_request_def)

lemma map_of_js_keys: "map_of (map (\<lambda>(b, v). (js b, v)) table) (js b) = map_of table b"
  by (induction table) (auto simp: js_eq_iff)

lemma scenario_env_simps:
  "toString_utf8 scenario_env = js"
  "pathname_of scenario_env = Some"
  "localeCompare scenario_env = codeunit_compare"
  "toLowerCase scenario_env = ascii_toLowerCase"
  "appAuth scenario_env i = Some (js ''ghs_token'')"
  "githubRequest scenario_env r"
  "b \<noteq> [] \<Longrightarrow> verify scenario_env (js b) s = Some (s = js ''sha256=valid'')"
  "JSON_parse scenario_env (js b) = map_of scenario_parse b"
  by (simp_all add: scenario_env_def js_Nil map_of_js_keys)

lemma scenario_bodies:
  "map_of scenario_parse scenario1_body = Some scenario1_json"
  "map_of scenario_parse created_body = Some (scenario1_with_action (js ''created''))"
  "map_of scenario_parse dismissed_body = Some (scenario1_with_action (js ''dismissed''))"
  "map_of scenario_parse dismissed_without_ecosystem_body = Some (without_ecosystem (js ''dismissed''))"
  "map_of scenario_parse created_without_ecosystem_body = Some (without_ecosystem (js ''created''))"
  "map_of scenario_parse no_repository_body = Some no_repository_json"
  "map_of scenario_parse malformed_body = None"
  by (simp_all add: scenario_parse_def scenario1_body_def created_body_def dismissed_body_def
      dismissed_without_ecosystem_body_def created_without_ecosystem_body_def
      no_repository_body_def malformed_body_def)

lemma scenario_body_sizes:
  "scenario1_body \<noteq> [] \<and> length scenario1_body \<le> 1024 * 1024"
  "created_body \<noteq> [] \<and> length created_body \<le> 1024 * 1024"
  "dismissed_body \<noteq> [] \<and> length dismissed_body \<le> 1024 * 1024"
  "dismissed_without_ecosystem_body \<noteq> [] \<and> length dismissed_without_ecosystem_body \<le> 1024 * 1024"
  "created_without_ecosystem_body \<noteq> [] \<and> length created_without_ecosystem_body \<le> 1024 * 1024"
  "no_repository_body \<noteq> [] \<and> length no_repository_body \<le> 1024 * 1024"
  "malformed_body \<noteq> [] \<and> length malformed_body \<le> 1024 * 1024"
  by (simp_all add: scenario1_body_def created_body_def dismissed_body_def
      dismissed_without_ecosystem_body_def created_without_ecosystem_body_def
      no_repository_body_def malformed_body_def)

lemma scenario_run:
  assumes "b \<noteq> [] \<and> length b \<le> 1024 * 1024" "signature \<noteq> []"
  shows "request_listener scenario_env (webhook_request signature [b]) =
           verify_and_receive scenario_env (js ''dependabot_alert'') signature (js b)"
  using listener_received [OF gate_webhook_request [OF assms(2)], of "[b]"] assms(1)
  by (simp add: body_length_webhook_request chunks_webhook_request scenario_env_simps)

lemma scenario_compare: "0 < codeunit_compare (js ''minimatch'') (js ''brace-expansion'')"
  by (simp add: js_def)

lemma scenario_lower: "ascii_toLowerCase (js ''npm'') = js ''npm''"
  by (simp add: js_def ascii_toLowerCase_def)

lemma valid_signature: "js ''sha256=valid'' \<noteq> []" "js ''sha256=tampered'' \<noteq> []"
  "js ''sha256=tampered'' \<noteq> js ''sha256=valid''"
  by (simp_all add: js_Nil js_eq_iff)

lemma not_registered:
  "\<not> handler_registered (js ''dependabot_alert'') (Some JNull)"
  "\<not> handler_registered (js ''dependabot_alert'') (Some (JStr (js ''dismissed'')))"
  by (simp_all add: subscribed_def js_append [symmetric] js_eq_iff)

lemma run_scenario1:
  "request_listener scenario_env (webhook_request (js ''sha256=valid'') [scenario1_body]) =
     (\<lparr>status = 202, body = JObj [(js ''accepted'', JBool True)]\<rparr>,
      [Verify (js scenario1_body) (js ''sha256=valid''), Parse (js scenario1_body)])"
proof -
  have ea: "event_action scenario1_json = Inr (Some JNull)"
    by (simp add: scenario1_json_def scenario1_alert_def scenario1_installation_def
        scenario1_repository_def js_eq_iff)
  have "receive scenario_env (js ''dependabot_alert'') scenario1_json = (Inr (), [])"
    by (simp add: receive_def ea event_action_truthy [OF ea] not_registered
        del: handler_registered.simps)
  then show ?thesis
    using scenario_body_sizes(1)
    by (simp add: scenario_run valid_signature verify_and_receive_def respond_def
        scenario_env_simps scenario_bodies)
qed

lemma run_created:
  "request_listener scenario_env (webhook_request (js ''sha256=valid'') [created_body]) =
     (\<lparr>status = 202, body = JObj [(js ''accepted'', JBool True)]\<rparr>,
      [Verify (js created_body) (js ''sha256=valid''), Parse (js created_body),
       AppAuth (Some (JNum 1)), Dispatch (scenario1_dispatch (js ''ghs_token''))])"
proof -
  have ea: "event_action (scenario1_with_action (js ''created''))
      = Inr (Some (JStr (js ''created'')))"
    by (simp add: scenario1_with_action_def)
  have "on_dependabot_alert scenario_env (scenario1_with_action (js ''created'')) =
      (Inr (), [AppAuth (Some (JNum 1)), Dispatch (scenario1_dispatch (js ''ghs_token''))])"
    using scenario1_dispatchPayload [of scenario_env "js ''created''"]
    by (simp add: on_dependabot_alert_def scenario1_dispatch_target scenario1_dispatch_def
        scenario_env_simps scenario_compare scenario_lower)
  with receive_registered [OF ea, of "js ''dependabot_alert''" scenario_env]
    subscribed_actions [of "js ''created''"]
  have "receive scenario_env (js ''dependabot_alert'') (scenario1_with_action (js ''created''))
      = (Inr (), [AppAuth (Some (JNum 1)), Dispatch (scenario1_dispatch (js ''ghs_token''))])"
    by simp
  then show ?thesis
    using scenario_body_sizes(2)
    by (simp add: scenario_run valid_signature verify_and_receive_def respond_def
        scenario_env_simps scenario_bodies)
qed

lemma run_dismissed:
  "request_listener scenario_env (webhook_request (js ''sha256=valid'') [dismissed_body]) =
     (\<lparr>status = 202, body = JObj [(js ''accepted'', JBool True)]\<rparr>,
      [Verify (js dismissed_body) (js ''sha256=valid''), Parse (js dismissed_body)])"
proof -
  have ea: "event_action (scenario1_with_action (js ''dismissed''))
        = Inr (Some (JStr (js ''dismissed'')))"
    by (simp add: scenario1_with_action_def)
  have "receive scenario_env (js ''dependabot_alert'') (scenario1_with_action (js ''dismissed''))
        = (Inr (), [])"
    by (simp add: receive_def ea event_action_truthy [OF ea] not_registered
        del: handler_registered.simps)
  then show ?thesis
    using scenario_body_sizes(3)
    by (simp add: scenario_run valid_signature verify_and_receive_def respond_def
        scenario_env_simps scenario_bodies)
qed

lemma run_dismissed_without_ecosystem:
  "request_listener scenario_env
     (webhook_request (js ''sha256=valid'') [dismissed_without_ecosystem_body]) =
     (\<lparr>status = 202, body = JObj [(js ''accepted'', JBool True)]\<rparr>,
      [Verify (js dismissed_without_ecosystem_body) (js ''sha256=valid''),
       Parse (js dismissed_without_ecosystem_body)])"
proof -
  have ea: "event_action (without_ecosystem (js ''dismissed''))
        = Inr (Some (JStr (js ''dismissed'')))"
    by (simp add: without_ecosystem_def)
  have "receive scenario_env (js ''dependabot_alert'') (without_ecosystem (js ''dismissed''))
        = (Inr (), [])"
    by (simp add: receive_def ea event_action_truthy [OF ea] not_registered
        del: handler_registered.simps)
  then show ?thesis
    using scenario_body_sizes(4)
    by (simp add: scenario_run valid_signature verify_and_receive_def respond_def
        scenario_env_simps scenario_bodies)
qed

lemma without_ecosystem_fails: "validation_failure (without_ecosystem action)"
  by (simp add: validation_failure_def missing_def directPackage_of_def and_then_def
      without_ecosystem_def alert_without_ecosystem_def js_eq_iff)

lemma run_no_repository:
  "request_listener scenario_env (webhook_request (js ''sha256=valid'') [no_repository_body]) =
     (\<lparr>status = 500, body = json_error ''internal_error''\<rparr>,
      [Verify (js no_repository_body) (js ''sha256=valid''), Parse (js no_repository_body),
       AppAuth (Some (JNum 1))])"
proof -
  have d: "dispatchPayload scenario_env no_repository_json = Inr (Some (JNum 1), scenario1_payload)"
    using scenario_compare scenario_lower
      scenario1_names [of codeunit_compare, OF scenario_compare]
    by (simp add: dispatchPayload_def directPackage_of_def dependency_names_def
      installationId_of_def vulnerability_name_def and_then_def scenario_env_simps
      no_repository_json_def scenario1_alert_def scenario1_installation_def
      scenario1_payload_def js_eq_iff js_Nil)
  have t: "dispatch_target no_repository_json = Inl TypeError"
    by (simp add: dispatch_target_def and_then_def no_repository_json_def scenario1_alert_def
      scenario1_installation_def js_eq_iff)
  have "on_dependabot_alert scenario_env no_repository_json =
      (Inl TypeError, [AppAuth (Some (JNum 1))])"
    by (simp add: on_dependabot_alert_def d t scenario_env_simps)
  moreover have "event_action no_repository_json = Inr (Some (JStr (js ''created'')))"
    by (simp add: no_repository_json_def)
  ultimately have "receive scenario_env (js ''dependabot_alert'') no_repository_json =
      (Inl TypeError, [AppAuth (Some (JNum 1))])"
    using receive_registered [of no_repository_json _ "js ''dependabot_alert''" scenario_env]
      subscribed_actions [of "js ''created''"] by simp
  then show ?thesis
    using scenario_body_sizes(6)
    by (simp add: scenario_run valid_signature verify_and_receive_def respond_def
        scenario_env_simps scenario_bodies)
qed

lemma run_malformed:
  "request_listener scenario_env (webhook_request (js ''sha256=valid'') [malformed_body]) =
     (\<lparr>status = 400, body = json_error ''invalid_json''\<rparr>,
      [Verify (js malformed_body) (js ''sha256=valid''), Parse (js malformed_body)])"
  using scenario_body_sizes(7)
  by (simp add: scenario_run valid_signature verify_and_receive_def respond_def
      scenario_env_simps scenario_bodies)

lemma run_tampered:
  "request_listener scenario_env (webhook_request (js ''sha256=tampered'') [created_body]) =
     (\<lparr>status = 401, body = json_error ''invalid_signature''\<rparr>,
      [Verify (js created_body) (js ''sha256=tampered'')])"
  using scenario_body_sizes(2)
  by (simp add: scenario_run valid_signature verify_and_receive_def respond_def
      scenario_env_simps)

section \<open>Stated properties of the listener\<close>

text \<open>
  C1. The body of the first scenario carries no action, and the handler is registered
  for the four actions created, reopened, reintroduced and auto_reopened only: that
  delivery is answered 202 and nothing is dispatched (the third statement below). Where
  the same body carries one of the four actions (and the signature verifies, the event
  kind is the supported one, the host's collation puts \<^verbatim>\<open>brace-expansion\<close> before
  \<^verbatim>\<open>minimatch\<close> and leaves \<^verbatim>\<open>npm\<close> in lower case, and the credential exchange and the
  dispatch call succeed), the listener makes exactly one credential exchange for
  installation 1 and one dispatch call to \<^verbatim>\<open>acme/widgets\<close> with the payload of the
  scenario, alert number 123, \<^verbatim>\<open>GHSA-xxxx\<close>, \<^verbatim>\<open>high\<close>, \<^verbatim>\<open>npm\<close> and the names
  \<^verbatim>\<open>brace-expansion\<close>, \<^verbatim>\<open>minimatch\<close>, and answers 202.
\<close>

theorem scenario1_created_is_dispatched:
  assumes gate: "request_gate env requestMessage = Inr (deliveryId, eventName, signature)"
    and size: "body_length requestMessage \<le> 1024 * 1024"
    and payload: "payload = toString_utf8 env (concat (chunks requestMessage))"
    and verified: "verify env payload signature = Some True"
    and parsed: "JSON_parse env payload = Some (scenario1_with_action action)"
    and action:
      "action \<in> {js ''created'', js ''reopened'', js ''reintroduced'', js ''auto_reopened''}"
    and after: "0 < localeCompare env (js ''minimatch'') (js ''brace-expansion'')"
    and before: "localeCompare env (js ''brace-expansion'') (js ''minimatch'') < 0"
    and lower: "toLowerCase env (js ''npm'') = js ''npm''"
    and token: "appAuth env (Some (JNum 1)) = Some token"
    and sent: "githubRequest env (scenario1_dispatch token)"
  shows "request_listener env requestMessage =
           (\<lparr>status = 202, body = JObj [(js ''accepted'', JBool True)]\<rparr>,
            [Verify payload signature, Parse payload,
             AppAuth (Some (JNum 1)), Dispatch (scenario1_dispatch token)])"
proof -
  have act: "event_action (scenario1_with_action action) = Inr (Some (JStr action))"
    by (simp add: scenario1_with_action_def)
  have "on_dependabot_alert env (scenario1_with_action action) =
      (Inr (), [AppAuth (Some (JNum 1)), Dispatch (scenario1_dispatch token)])"
    using token sent
    by (simp add: on_dependabot_alert_def scenario1_dispatchPayload [OF after lower]
        scenario1_dispatch_target scenario1_dispatch_def)
  with receive_registered [OF act subscribed_actions [OF action]]
  have "receive env (js ''dependabot_alert'') (scenario1_with_action action) =
      (Inr (), [AppAuth (Some (JNum 1)), Dispatch (scenario1_dispatch token)])"
    by simp
  with verified parsed
  have "verify_and_receive env (js ''dependabot_alert'') signature payload =
      (\<lparr>status = 202, body = JObj [(js ''accepted'', JBool True)]\<rparr>,
       [Verify payload signature, Parse payload,
        AppAuth (Some (JNum 1)), Dispatch (scenario1_dispatch token)])"
    by (simp add: verify_and_receive_def respond_def)
  with listener_received [OF gate size] payload show ?thesis by simp
qed

theorem scenario1_created_is_dispatched_witness:
  "request_listener scenario_env (webhook_request (js ''sha256=valid'') [created_body]) =
     (\<lparr>status = 202, body = JObj [(js ''accepted'', JBool True)]\<rparr>,
      [Verify (js created_body) (js ''sha256=valid''), Parse (js created_body),
       AppAuth (Some (JNum 1)), Dispatch (scenario1_dispatch (js ''ghs_token''))])"
proof -
  let ?req = "webhook_request (js ''sha256=valid'') [created_body]"
  have gate: "request_gate scenario_env ?req =
      Inr (js ''72d3162e'', js ''dependabot_alert'', js ''sha256=valid'')"
    by (simp add: gate_webhook_request valid_signature)
  have size: "body_length ?req \<le> 1024 * 1024"
    using scenario_body_sizes(2) by (simp add: body_length_webhook_request)
  have payload: "js created_body = toString_utf8 scenario_env (concat (chunks ?req))"
    by (simp add: chunks_webhook_request scenario_env_simps)
  have verified: "verify scenario_env (js created_body) (js ''sha256=valid'') = Some True"
    using scenario_body_sizes(2) by (simp add: scenario_env_simps)
  have parsed: "JSON_parse scenario_env (js created_body) =
      Some (scenario1_with_action (js ''created''))"
    by (simp add: scenario_env_simps scenario_bodies)
  have action: "js ''created'' \<in>
      {js ''created'', js ''reopened'', js ''reintroduced'', js ''auto_reopened''}"
    by simp
  have after: "0 < localeCompare scenario_env (js ''minimatch'') (js ''brace-expansion'')"
    by (simp add: scenario_env_simps scenario_compare)
  have before: "localeCompare scenario_env (js ''brace-expansion'') (js ''minimatch'') < 0"
    by (simp add: scenario_env_simps js_def)
  have lower: "toLowerCase scenario_env (js ''npm'') = js ''npm''"
    by (simp add: scenario_env_simps scenario_lower)
  have token: "appAuth scenario_env (Some (JNum 1)) = Some (js ''ghs_token'')"
    by (simp add: scenario_env_simps)
  have sent: "githubRequest scenario_env (scenario1_dispatch (js ''ghs_token''))"
    by (simp add: scenario_env_simps)
  from scenario1_created_is_dispatched [OF gate size payload verified parsed action after before lower token sent]
  show ?thesis .
qed

theorem scenario1_without_action_is_not_dispatched:
  "request_listener scenario_env (webhook_request (js ''sha256=valid'') [scenario1_body]) =
     (\<lparr>status = 202, body = JObj [(js ''accepted'', JBool True)]\<rparr>,
      [Verify (js scenario1_body) (js ''sha256=valid''), Parse (js scenario1_body)]) \<and>
   JSON_parse scenario_env (js scenario1_body) = Some scenario1_json \<and>
   filter is_dispatch
     (snd (request_listener scenario_env
        (webhook_request (js ''sha256=valid'') [scenario1_body]))) = []"
  by (simp add: run_scenario1 scenario_env_simps scenario_bodies)

text \<open>
  C2. For every request: \<^verbatim>\<open>appAuth\<close> is called at most once and at most one dispatch
  call is made; a dispatch call comes only right after the call of \<^verbatim>\<open>appAuth\<close> that
  returned its token; a delivery answered 202 as accepted for which the handler is
  registered made exactly one call of \<^verbatim>\<open>appAuth\<close> and then exactly one dispatch call;
  when \<^verbatim>\<open>appAuth\<close> returned a token, the dispatch call follows whenever the repository
  owner's login and the repository name can be read from the payload; and a delivery
  for which the handler is not registered makes no outbound call. The handler is
  registered for a delivery when the action of its payload is one of the strings
  created, reopened, reintroduced and auto_reopened, or such a string inside arrays of
  one element, which the library converts to the same name (\<open>handler_registered_iff\<close>);
  it is not for any other action, nor for a payload with none. A delivery for which it
  is not registered is all the same accepted with 202, and a payload without a
  repository obtains a credential and makes no dispatch call (the third statement
  below). Whether \<^verbatim>\<open>appAuth\<close> exchanges a credential or answers from the library's cache
  is outside the listener.
\<close>

theorem dispatch_at_most_once_after_credential:
  assumes "request_listener env requestMessage = (response, trace)"
  shows "length (filter is_dispatch trace) \<le> 1 \<and>
         length (filter is_appAuth trace) \<le> 1 \<and>
         (filter is_dispatch trace \<noteq> [] \<longrightarrow>
            (\<exists>i r token. filter is_outbound trace = [AppAuth i, Dispatch r] \<and>
               appAuth env i = Some token \<and> authorization r = js ''token '' @ token)) \<and>
         (response = \<lparr>status = 202, body = JObj [(js ''accepted'', JBool True)]\<rparr> \<and>
          JSON_parse env (toString_utf8 env (concat (chunks requestMessage))) = Some parsed \<and>
          event_action parsed = Inr action \<and>
          handler_registered (js ''dependabot_alert'') action \<longrightarrow>
            (\<exists>i r. filter is_outbound trace = [AppAuth i, Dispatch r])) \<and>
         (AppAuth i \<in> set trace \<and> appAuth env i = Some token \<and>
          JSON_parse env (toString_utf8 env (concat (chunks requestMessage))) = Some parsed \<and>
          dispatch_target parsed = Inr target \<longrightarrow>
            (\<exists>r. filter is_outbound trace = [AppAuth i, Dispatch r])) \<and>
         (JSON_parse env (toString_utf8 env (concat (chunks requestMessage))) = Some parsed \<and>
          \<not> (\<exists>a. event_action parsed = Inr a \<and>
                 handler_registered (js ''dependabot_alert'') a) \<longrightarrow>
            filter is_outbound trace = [])"
proof -
  let ?p = "toString_utf8 env (concat (chunks requestMessage))"
  from listener_cases [OF assms] consider
      (too_large) "trace = [Destroy]"
        "response = \<lparr>status = 413, body = json_error ''payload_too_large''\<rparr>"
    | (early) "trace = []" "request_gate env requestMessage = Inl response"
    | (vr) s where "verify_and_receive env (js ''dependabot_alert'') s ?p = (response, trace)"
    by auto
  then show ?thesis
  proof cases
    case too_large
    then show ?thesis by auto
  next
    case early
    have "response \<noteq> \<lparr>status = 202, body = JObj [(js ''accepted'', JBool True)]\<rparr>"
      using early(2)
      by (auto simp: request_gate_def js_eq_iff split: option.splits if_splits)
    with early(1) show ?thesis by auto
  next
    case vr
    from verify_and_receive_cases [OF vr] consider
        (short) "filter is_outbound trace = []" "filter is_dispatch trace = []"
          "filter is_appAuth trace = []"
          "response \<noteq> \<lparr>status = 202, body = JObj [(js ''accepted'', JBool True)]\<rparr>"
          "\<forall>i. AppAuth i \<notin> set trace"
      | (recv) parsed' result rest where "JSON_parse env ?p = Some parsed'"
          "receive env (js ''dependabot_alert'') parsed' = (result, rest)"
          "trace = [Verify ?p s, Parse ?p] @ rest"
          "(\<exists>e. result = Inl e) \<and>
             response = \<lparr>status = 500, body = json_error ''internal_error''\<rparr> \<or>
           result = Inr () \<and>
             response = \<lparr>status = 202, body = JObj [(js ''accepted'', JBool True)]\<rparr>"
      by auto
    then show ?thesis
    proof cases
      case short
      then show ?thesis by auto
    next
      case recv
      note t = receive_trace [OF recv(2)]
      have a: "length (filter is_dispatch trace) \<le> 1 \<and> length (filter is_appAuth trace) \<le> 1"
        using t unfolding recv(3) filter_outbound_simps by auto
      have b: "filter is_dispatch trace \<noteq> [] \<longrightarrow>
            (\<exists>i r token. filter is_outbound trace = [AppAuth i, Dispatch r] \<and>
               appAuth env i = Some token \<and> authorization r = js ''token '' @ token)"
        using t unfolding recv(3) filter_outbound_simps by auto
      have c: "\<exists>i r. filter is_outbound trace = [AppAuth i, Dispatch r]"
        if "response = \<lparr>status = 202, body = JObj [(js ''accepted'', JBool True)]\<rparr>"
          "JSON_parse env ?p = Some parsed" "event_action parsed = Inr action"
          "handler_registered (js ''dependabot_alert'') action"
      proof -
        from that(1) recv(4) have "result = Inr ()" by auto
        moreover from that(2) recv(1) have "parsed' = parsed" by simp
        ultimately have "receive env (js ''dependabot_alert'') parsed = (Inr (), rest)"
          using recv(2) by simp
        from receive_accepted [OF this that(3,4)] show ?thesis
          unfolding recv(3) filter_outbound_simps by auto
      qed
      have d: "\<exists>r. filter is_outbound trace = [AppAuth i, Dispatch r]"
        if "AppAuth i \<in> set trace" "appAuth env i = Some token"
          "JSON_parse env ?p = Some parsed" "dispatch_target parsed = Inr target"
      proof -
        from that(3) recv(1) have "parsed' = parsed" by simp
        with recv(2) have r: "receive env (js ''dependabot_alert'') parsed = (result, rest)"
          by simp
        from that(1) have "AppAuth i \<in> set rest" unfolding recv(3) by simp
        from receive_credential [OF r this that(2,4)] show ?thesis
          unfolding recv(3) filter_outbound_simps by auto
      qed
      have e: "filter is_outbound trace = []"
        if "JSON_parse env ?p = Some parsed"
          "\<not> (\<exists>a. event_action parsed = Inr a \<and>
                 handler_registered (js ''dependabot_alert'') a)"
      proof -
        from that(1) recv(1) have "parsed' = parsed" by simp
        with receive_unregistered [OF that(2), of env] recv(2) have "rest = []" by auto
        then show ?thesis unfolding recv(3) filter_outbound_simps by simp
      qed
      from a b c d e show ?thesis by blast
    qed
  qed
qed

theorem dispatch_at_most_once_after_credential_witness:
  "length (filter is_dispatch
     (snd (request_listener scenario_env
        (webhook_request (js ''sha256=valid'') [created_body])))) \<le> 1 \<and>
   length (filter is_appAuth
     (snd (request_listener scenario_env
        (webhook_request (js ''sha256=valid'') [created_body])))) \<le> 1 \<and>
   (\<exists>i r. filter is_outbound
     (snd (request_listener scenario_env
        (webhook_request (js ''sha256=valid'') [created_body]))) = [AppAuth i, Dispatch r]) \<and>
   filter is_outbound
     (snd (request_listener scenario_env
        (webhook_request (js ''sha256=valid'') [dismissed_body]))) = []"
proof -
  let ?req = "webhook_request (js ''sha256=valid'') [created_body]"
  let ?parsed = "scenario1_with_action (js ''created'')"
  have run: "request_listener scenario_env ?req =
      (fst (request_listener scenario_env ?req), snd (request_listener scenario_env ?req))"
    by simp
  have accepted: "fst (request_listener scenario_env ?req) =
      \<lparr>status = 202, body = JObj [(js ''accepted'', JBool True)]\<rparr>"
    by (simp add: run_created)
  have parsed: "JSON_parse scenario_env (toString_utf8 scenario_env (concat (chunks ?req)))
      = Some ?parsed"
    by (simp add: chunks_webhook_request scenario_env_simps scenario_bodies)
  have ea: "event_action ?parsed = Inr (Some (JStr (js ''created'')))"
    by (simp add: scenario1_with_action_def)
  have reg: "handler_registered (js ''dependabot_alert'') (Some (JStr (js ''created'')))"
    by (rule subscribed_actions) simp
  have dispatched: "filter is_dispatch (snd (request_listener scenario_env ?req)) \<noteq> []"
    by (simp add: run_created)
  have cred: "AppAuth (Some (JNum 1)) \<in> set (snd (request_listener scenario_env ?req))"
    by (simp add: run_created)
  have token: "appAuth scenario_env (Some (JNum 1)) = Some (js ''ghs_token'')"
    by (simp add: scenario_env_simps)
  note target = scenario1_dispatch_target [of "js ''created''"]
  from dispatch_at_most_once_after_credential
      [OF run, of ?parsed "Some (JStr (js ''created''))" "Some (JNum 1)" "js ''ghs_token''"
        "(Some (JStr (js ''acme'')), Some (JStr (js ''widgets'')))"]
    accepted parsed ea reg dispatched cred token target
  have created: "length (filter is_dispatch (snd (request_listener scenario_env ?req))) \<le> 1 \<and>
      length (filter is_appAuth (snd (request_listener scenario_env ?req))) \<le> 1 \<and>
      (\<exists>i r. filter is_outbound (snd (request_listener scenario_env ?req))
         = [AppAuth i, Dispatch r])"
    by blast
  let ?other = "webhook_request (js ''sha256=valid'') [dismissed_body]"
  let ?dismissed = "scenario1_with_action (js ''dismissed'')"
  have run': "request_listener scenario_env ?other =
      (fst (request_listener scenario_env ?other), snd (request_listener scenario_env ?other))"
    by simp
  have parsed': "JSON_parse scenario_env (toString_utf8 scenario_env (concat (chunks ?other)))
      = Some ?dismissed"
    by (simp add: chunks_webhook_request scenario_env_simps scenario_bodies)
  have "event_action ?dismissed = Inr (Some (JStr (js ''dismissed'')))"
    by (simp add: scenario1_with_action_def)
  with not_registered(2)
  have unregistered: "\<not> (\<exists>a. event_action ?dismissed = Inr a \<and>
      handler_registered (js ''dependabot_alert'') a)"
    by auto
  from dispatch_at_most_once_after_credential [OF run', of ?dismissed] parsed' unregistered
  have "filter is_outbound (snd (request_listener scenario_env ?other)) = []"
    by blast
  with created show ?thesis by blast
qed

theorem accepted_or_credentialed_without_dispatch:
  "request_listener scenario_env (webhook_request (js ''sha256=valid'') [dismissed_body]) =
     (\<lparr>status = 202, body = JObj [(js ''accepted'', JBool True)]\<rparr>,
      [Verify (js dismissed_body) (js ''sha256=valid''), Parse (js dismissed_body)]) \<and>
   request_listener scenario_env (webhook_request (js ''sha256=valid'') [no_repository_body]) =
     (\<lparr>status = 500, body = json_error ''internal_error''\<rparr>,
      [Verify (js no_repository_body) (js ''sha256=valid''), Parse (js no_repository_body),
       AppAuth (Some (JNum 1))]) \<and>
   appAuth scenario_env (Some (JNum 1)) = Some (js ''ghs_token'')"
  by (simp add: run_dismissed run_no_repository scenario_env_simps)

text \<open>
  C5. For every delivery that is verified and parsed and whose action the handler is
  registered for: when the direct package, its ecosystem or the installation id is
  absent or empty, or no name is left after trimming, the answer is 500 with the
  generic body, and the trace holds the signature check and the parse only, no
  credential exchange and no dispatch call. With an action the handler is not registered
  for, the same defects are answered 202 (the third statement below).
\<close>

theorem validation_failure_is_500:
  assumes "request_gate env requestMessage = Inr (deliveryId, eventName, signature)"
    and "body_length requestMessage \<le> 1024 * 1024"
    and "payload = toString_utf8 env (concat (chunks requestMessage))"
    and "verify env payload signature = Some True"
    and "JSON_parse env payload = Some parsed"
    and "event_action parsed = Inr action"
    and "handler_registered eventName action"
    and "validation_failure parsed"
  shows "request_listener env requestMessage =
           (\<lparr>status = 500, body = json_error ''internal_error''\<rparr>,
            [Verify payload signature, Parse payload])"
proof -
  from request_gate_Inr [OF assms(1)] have e: "eventName = js ''dependabot_alert''" by simp
  from handler_validation_failure [OF assms(8)] obtain err
    where "on_dependabot_alert env parsed = (Inl err, [])" by blast
  with receive_registered [OF assms(6,7)]
  have "receive env eventName parsed = (Inl err, [])" by simp
  with assms(4,5) e have "verify_and_receive env (js ''dependabot_alert'') signature payload =
      (\<lparr>status = 500, body = json_error ''internal_error''\<rparr>,
       [Verify payload signature, Parse payload])"
    by (simp add: verify_and_receive_def respond_def)
  with listener_received [OF assms(1,2)] assms(3) show ?thesis by simp
qed

theorem validation_failure_is_500_witness:
  "request_listener scenario_env
     (webhook_request (js ''sha256=valid'') [created_without_ecosystem_body]) =
     (\<lparr>status = 500, body = json_error ''internal_error''\<rparr>,
      [Verify (js created_without_ecosystem_body) (js ''sha256=valid''),
       Parse (js created_without_ecosystem_body)])"
proof -
  let ?req = "webhook_request (js ''sha256=valid'') [created_without_ecosystem_body]"
  have gate: "request_gate scenario_env ?req =
      Inr (js ''72d3162e'', js ''dependabot_alert'', js ''sha256=valid'')"
    by (simp add: gate_webhook_request valid_signature)
  have size: "body_length ?req \<le> 1024 * 1024"
    using scenario_body_sizes(5) by (simp add: body_length_webhook_request)
  have payload: "js created_without_ecosystem_body =
      toString_utf8 scenario_env (concat (chunks ?req))"
    by (simp add: chunks_webhook_request scenario_env_simps)
  have verified: "verify scenario_env (js created_without_ecosystem_body)
      (js ''sha256=valid'') = Some True"
    using scenario_body_sizes(5) by (simp add: scenario_env_simps)
  have parsed: "JSON_parse scenario_env (js created_without_ecosystem_body) =
      Some (without_ecosystem (js ''created''))"
    by (simp add: scenario_env_simps scenario_bodies)
  have ea: "event_action (without_ecosystem (js ''created''))
      = Inr (Some (JStr (js ''created'')))"
    by (simp add: without_ecosystem_def)
  have reg: "handler_registered (js ''dependabot_alert'') (Some (JStr (js ''created'')))"
    by (rule subscribed_actions) simp
  from validation_failure_is_500 [OF gate size payload verified parsed ea reg without_ecosystem_fails]
  show ?thesis .
qed

theorem validation_failure_unregistered_is_202:
  "validation_failure (without_ecosystem (js ''dismissed'')) \<and>
   verify scenario_env (js dismissed_without_ecosystem_body) (js ''sha256=valid'') = Some True \<and>
   JSON_parse scenario_env (js dismissed_without_ecosystem_body)
     = Some (without_ecosystem (js ''dismissed'')) \<and>
   request_listener scenario_env
     (webhook_request (js ''sha256=valid'') [dismissed_without_ecosystem_body]) =
     (\<lparr>status = 202, body = JObj [(js ''accepted'', JBool True)]\<rparr>,
      [Verify (js dismissed_without_ecosystem_body) (js ''sha256=valid''),
       Parse (js dismissed_without_ecosystem_body)])"
  using scenario_body_sizes(4)
  by (simp add: run_dismissed_without_ecosystem without_ecosystem_fails scenario_env_simps
      scenario_bodies)

text \<open>
  C6. For every request on which the signature check was made and gave the verdict
  false: the answer is 401 with the code \<^verbatim>\<open>invalid_signature\<close>, and the check is the only
  entry of the trace: the body was not parsed and no outbound call was made.
\<close>

theorem failed_signature_is_401:
  assumes "request_listener env requestMessage = (response, trace)"
    and "Verify payload signature \<in> set trace"
    and "verify env payload signature = Some False"
  shows "response = \<lparr>status = 401, body = json_error ''invalid_signature''\<rparr> \<and>
         trace = [Verify payload signature]"
proof -
  from listener_cases [OF assms(1)] assms(2)
  obtain d s where vr: "verify_and_receive env (js ''dependabot_alert'') s
      (toString_utf8 env (concat (chunks requestMessage))) = (response, trace)"
    by auto
  let ?p = "toString_utf8 env (concat (chunks requestMessage))"
  have same: "payload = ?p \<and> signature = s"
    using verify_and_receive_cases [OF vr] assms(2) receive_no_verify by fastforce
  with verify_and_receive_cases [OF vr] assms(3) show ?thesis by auto
qed

theorem failed_signature_is_401_witness:
  "verify scenario_env (js created_body) (js ''sha256=tampered'') = Some False \<and>
   fst (request_listener scenario_env (webhook_request (js ''sha256=tampered'') [created_body]))
     = \<lparr>status = 401, body = json_error ''invalid_signature''\<rparr> \<and>
   snd (request_listener scenario_env (webhook_request (js ''sha256=tampered'') [created_body]))
     = [Verify (js created_body) (js ''sha256=tampered'')]"
proof -
  let ?req = "webhook_request (js ''sha256=tampered'') [created_body]"
  have run: "request_listener scenario_env ?req =
      (fst (request_listener scenario_env ?req), snd (request_listener scenario_env ?req))"
    by simp
  have checked: "Verify (js created_body) (js ''sha256=tampered'')
      \<in> set (snd (request_listener scenario_env ?req))"
    by (simp add: run_tampered)
  have verdict: "verify scenario_env (js created_body) (js ''sha256=tampered'') = Some False"
    using scenario_body_sizes(2) by (simp add: scenario_env_simps valid_signature)
  from failed_signature_is_401 [OF run checked verdict] verdict show ?thesis by simp
qed

text \<open>
  C7. For every delivery that has passed the gates before the body is read and whose
  body is longer than 1048576 bytes: nothing is verified, parsed or sent, and the
  listener writes 413 with the code \<^verbatim>\<open>payload_too_large\<close>, but it has destroyed the
  request before (line 174), so that the client receives no response; so it is for a
  body of 1048577 bytes (the second statement). (For every request, a body over
  1048576 bytes is never verified or parsed, and a body of 1048576 bytes or fewer never
  has 413 written: \<open>oversized_body_not_read\<close>, \<open>body_within_limit_not_413\<close>.)
\<close>

theorem oversized_body_gets_no_response:
  assumes "request_gate env requestMessage = Inr (deliveryId, eventName, signature)"
    and "1024 * 1024 < body_length requestMessage"
  shows "request_listener env requestMessage =
           (\<lparr>status = 413, body = json_error ''payload_too_large''\<rparr>, [Destroy]) \<and>
         received_by_client (request_listener env requestMessage) = None"
proof -
  have run: "request_listener env requestMessage =
      (\<lparr>status = 413, body = json_error ''payload_too_large''\<rparr>, [Destroy])"
    using listener_too_large [OF assms] by (simp add: respond_def)
  then have "received_by_client (request_listener env requestMessage) = None"
    by (simp add: received_by_client_def)
  with run show ?thesis by simp
qed

theorem oversized_body_gets_no_response_witness:
  "request_gate scenario_env
     (webhook_request (js ''sha256=valid'') [replicate 1048577 CHR ''a'']) =
     Inr (js ''72d3162e'', js ''dependabot_alert'', js ''sha256=valid'') \<and>
   body_length (webhook_request (js ''sha256=valid'') [replicate 1048577 CHR ''a''])
     = 1048577 \<and>
   request_listener scenario_env
     (webhook_request (js ''sha256=valid'') [replicate 1048577 CHR ''a'']) =
     (\<lparr>status = 413, body = json_error ''payload_too_large''\<rparr>, [Destroy]) \<and>
   received_by_client (request_listener scenario_env
     (webhook_request (js ''sha256=valid'') [replicate 1048577 CHR ''a''])) = None"
proof -
  let ?big = "webhook_request (js ''sha256=valid'') [replicate 1048577 CHR ''a'']"
  have gate: "request_gate scenario_env ?big =
      Inr (js ''72d3162e'', js ''dependabot_alert'', js ''sha256=valid'')"
    by (simp add: gate_webhook_request valid_signature)
  have len: "body_length ?big = 1048577"
    by (simp add: body_length_webhook_request)
  then have big: "1024 * 1024 < body_length ?big" by simp
  from oversized_body_gets_no_response [OF gate big] gate len show ?thesis by blast
qed

text \<open>
  C8. For every POST request to \<^verbatim>\<open>/webhook\<close> or \<^verbatim>\<open>/\<close> in which one of the three headers
  is absent or empty, the answer is 400 and nothing else happens; the code of the
  answer is \<^verbatim>\<open>missing_github_headers\<close>, which is not \<^verbatim>\<open>missing_headers\<close>.
\<close>

theorem missing_header_is_400:
  assumes "url requestMessage = Some requestMessage_url" "requestMessage_url \<noteq> []"
    and "pathname_of env requestMessage_url = Some pathname"
    and "pathname = js ''/webhook'' \<or> pathname = js ''/''"
    and "http_method requestMessage = Some (js ''POST'')"
    and "first_value (headers requestMessage (js ''x-github-delivery'')) \<in> {None, Some []} \<or>
         first_value (headers requestMessage (js ''x-github-event'')) \<in> {None, Some []} \<or>
         first_value (headers requestMessage (js ''x-hub-signature-256'')) \<in> {None, Some []}"
  shows "request_listener env requestMessage =
           (\<lparr>status = 400, body = json_error ''missing_github_headers''\<rparr>, [])"
proof -
  have "js ''POST'' \<noteq> js ''GET''" by (simp add: js_eq_iff)
  with assms have "request_gate env requestMessage =
      Inl \<lparr>status = 400, body = json_error ''missing_github_headers''\<rparr>"
    by (auto simp: request_gate_def split: option.splits)
  then show ?thesis by (rule listener_rejected)
qed

theorem missing_header_is_400_witness:
  "request_listener scenario_env
     \<lparr>url = Some (js ''/webhook''), http_method = Some (js ''POST''),
      headers = map_of [(js ''x-github-delivery'', Single (js ''72d3162e'')),
                        (js ''x-github-event'', Single (js ''dependabot_alert''))],
      chunks = []\<rparr> =
     (\<lparr>status = 400, body = json_error ''missing_github_headers''\<rparr>, [])"
proof -
  let ?req = "\<lparr>url = Some (js ''/webhook''), http_method = Some (js ''POST''),
      headers = map_of [(js ''x-github-delivery'', Single (js ''72d3162e'')),
                        (js ''x-github-event'', Single (js ''dependabot_alert''))],
      chunks = []\<rparr>"
  have 1: "url ?req = Some (js ''/webhook'')" by simp
  have 2: "js ''/webhook'' \<noteq> []" by (simp add: js_Nil)
  have 3: "pathname_of scenario_env (js ''/webhook'') = Some (js ''/webhook'')"
    by (simp add: scenario_env_simps)
  have 4: "js ''/webhook'' = js ''/webhook'' \<or> js ''/webhook'' = js ''/''" by simp
  have 5: "http_method ?req = Some (js ''POST'')" by simp
  have 6: "first_value (headers ?req (js ''x-github-delivery'')) \<in> {None, Some []} \<or>
         first_value (headers ?req (js ''x-github-event'')) \<in> {None, Some []} \<or>
         first_value (headers ?req (js ''x-hub-signature-256'')) \<in> {None, Some []}"
    by (simp add: js_eq_iff)
  from missing_header_is_400 [OF 1 2 3 4 5 6] show ?thesis .
qed

theorem missing_header_error_code:
  "request_listener scenario_env
     \<lparr>url = Some (js ''/webhook''), http_method = Some (js ''POST''),
      headers = (\<lambda>name. None), chunks = []\<rparr> =
     (\<lparr>status = 400, body = json_error ''missing_github_headers''\<rparr>, []) \<and>
   json_error ''missing_github_headers'' \<noteq> json_error ''missing_headers''"
  by (simp add: request_listener_def request_gate_def scenario_env_simps js_eq_iff js_Nil
      json_error_def)

text \<open>
  C9. For every request whose body was handed to \<^verbatim>\<open>JSON.parse\<close> and did not parse: the
  answer is 400, the signature had verified, and the trace holds the signature check and
  the parse only, no outbound call; the code of the answer is \<^verbatim>\<open>invalid_json\<close>, which
  is not \<^verbatim>\<open>invalid_body\<close>.
\<close>

theorem malformed_json_is_400:
  assumes "request_listener env requestMessage = (response, trace)"
    and "Parse payload \<in> set trace"
    and "JSON_parse env payload = None"
  shows "response = \<lparr>status = 400, body = json_error ''invalid_json''\<rparr> \<and>
         (\<exists>signature. verify env payload signature = Some True \<and>
            trace = [Verify payload signature, Parse payload])"
proof -
  from listener_cases [OF assms(1)] assms(2)
  obtain d s where vr: "verify_and_receive env (js ''dependabot_alert'') s
      (toString_utf8 env (concat (chunks requestMessage))) = (response, trace)"
    by auto
  let ?p = "toString_utf8 env (concat (chunks requestMessage))"
  have same: "payload = ?p"
    using verify_and_receive_cases [OF vr] assms(2) receive_no_verify by fastforce
  with verify_and_receive_cases [OF vr] assms(2,3) show ?thesis by auto
qed

theorem malformed_json_is_400_witness:
  "JSON_parse scenario_env (js malformed_body) = None \<and>
   fst (request_listener scenario_env (webhook_request (js ''sha256=valid'') [malformed_body]))
     = \<lparr>status = 400, body = json_error ''invalid_json''\<rparr> \<and>
   (\<exists>signature. verify scenario_env (js malformed_body) signature = Some True \<and>
      snd (request_listener scenario_env (webhook_request (js ''sha256=valid'') [malformed_body]))
        = [Verify (js malformed_body) signature, Parse (js malformed_body)])"
proof -
  let ?req = "webhook_request (js ''sha256=valid'') [malformed_body]"
  have run: "request_listener scenario_env ?req =
      (fst (request_listener scenario_env ?req), snd (request_listener scenario_env ?req))"
    by simp
  have parsed: "Parse (js malformed_body) \<in> set (snd (request_listener scenario_env ?req))"
    by (simp add: run_malformed)
  have none: "JSON_parse scenario_env (js malformed_body) = None"
    by (simp add: scenario_env_simps scenario_bodies)
  from malformed_json_is_400 [OF run parsed none] none show ?thesis by simp
qed

theorem malformed_json_error_code:
  "verify scenario_env (js malformed_body) (js ''sha256=valid'') = Some True \<and>
   JSON_parse scenario_env (js malformed_body) = None \<and>
   request_listener scenario_env (webhook_request (js ''sha256=valid'') [malformed_body]) =
     (\<lparr>status = 400, body = json_error ''invalid_json''\<rparr>,
      [Verify (js malformed_body) (js ''sha256=valid''), Parse (js malformed_body)]) \<and>
   json_error ''invalid_json'' \<noteq> json_error ''invalid_body''"
  using scenario_body_sizes(7)
  by (simp add: run_malformed scenario_env_simps scenario_bodies json_error_def js_eq_iff)

text \<open>
  C10. An entry of the names that is no string (\<^verbatim>\<open>undefined\<close>, \<^verbatim>\<open>null\<close>, a number)
  leaves the result of lines 64 to 74 as it is without the entry; these lines fail
  exactly when no name is left after trimming; every name of their result is the
  trimmed form of a string of the input; and reading the name of the direct package, or
  of a vulnerability whose package is there and not \<^verbatim>\<open>null\<close>, does not throw, whatever
  the name is.
\<close>

theorem non_string_names_are_discarded:
  "(\<not> typeof_string v \<longrightarrow>
      checked_dependencies cmp (xs @ v # ys) = checked_dependencies cmp (xs @ ys)) \<and>
   ((\<exists>e. checked_dependencies cmp names = Inl e) \<longleftrightarrow> dependencies_filtered names = []) \<and>
   (checked_dependencies cmp names = Inr out \<longrightarrow>
      (\<forall>d \<in> set out. \<exists>s. Some (JStr s) \<in> set names \<and> d = trim s)) \<and>
   (truthy directPackage \<longrightarrow> (\<exists>name. get_prop directPackage (js ''name'') = Inr name)) \<and>
   (get_prop (Some vulnerability) (js ''package'') = Inr (Some package) \<and> package \<noteq> JNull \<longrightarrow>
      (\<exists>name. vulnerability_name vulnerability = Inr name))"
proof (intro conjI impI)
  assume "\<not> typeof_string v"
  then show "checked_dependencies cmp (xs @ v # ys) = checked_dependencies cmp (xs @ ys)"
    by (simp add: checked_dependencies_def normalizedDependencies_def dependencies_filtered_drop)
next
  show "(\<exists>e. checked_dependencies cmp names = Inl e) \<longleftrightarrow> dependencies_filtered names = []"
    by (rule checked_dependencies_Inl)
next
  assume "checked_dependencies cmp names = Inr out"
  then have "out = normalizedDependencies cmp names"
    by (auto simp: checked_dependencies_def split: if_splits)
  then show "\<forall>d \<in> set out. \<exists>s. Some (JStr s) \<in> set names \<and> d = trim s"
    using dependencies_filtered_trimmed [of _ names]
    by (auto simp: set_normalizedDependencies)
next
  assume "truthy directPackage"
  then show "\<exists>name. get_prop directPackage (js ''name'') = Inr name"
    by (rule get_prop_truthy)
next
  assume "get_prop (Some vulnerability) (js ''package'') = Inr (Some package) \<and> package \<noteq> JNull"
  then show "\<exists>name. vulnerability_name vulnerability = Inr name"
    by (cases package) (auto simp: vulnerability_name_def and_then_def)
qed

theorem non_string_names_are_discarded_witness:
  "checked_dependencies codeunit_compare
     ([Some (JStr (js ''minimatch''))] @ None # [Some JNull, Some (JStr (js ''brace-expansion''))])
   = Inr [js ''brace-expansion'', js ''minimatch''] \<and>
   list_all (\<lambda>d. \<exists>s. Some (JStr s) \<in> set ([Some (JStr (js ''minimatch''))] @
                 [Some JNull, Some (JStr (js ''brace-expansion''))]) \<and> d = trim s)
     [js ''brace-expansion'', js ''minimatch''] \<and>
   dependencies_filtered [None, Some JNull, Some (JNum 7)] = [] \<and>
   (\<exists>e. checked_dependencies codeunit_compare [None, Some JNull, Some (JNum 7)] = Inl e) \<and>
   (\<exists>name. get_prop (Some (JObj [(js ''ecosystem'', JStr (js ''npm''))])) (js ''name'')
      = Inr name) \<and>
   (\<exists>name. vulnerability_name (JObj [(js ''package'', JObj [(js ''name'', JNull)])])
      = Inr name)"
proof -
  let ?xs = "[Some (JStr (js ''minimatch''))]"
  let ?ys = "[Some JNull, Some (JStr (js ''brace-expansion''))]"
  let ?out = "[js ''brace-expansion'', js ''minimatch'']"
  let ?names = "[None, Some JNull, Some (JNum 7)]"
  let ?vulnerability = "JObj [(js ''package'', JObj [(js ''name'', JNull)])]"
  let ?package = "JObj [(js ''name'', JNull)]"
  let ?direct = "Some (JObj [(js ''ecosystem'', JStr (js ''npm''))])"
  have kept: "checked_dependencies codeunit_compare (?xs @ ?ys) = Inr ?out"
    using scenario_compare
    by (simp add: checked_dependencies_def normalizedDependencies_def dependencies_filtered_def
        js_sort_def trim_minimatch trim_brace_expansion js_eq_iff js_Nil)
  have undef: "\<not> typeof_string None" by simp
  have empty: "dependencies_filtered ?names = []"
    by (simp add: dependencies_filtered_def)
  have direct: "truthy ?direct" by simp
  have package: "get_prop (Some ?vulnerability) (js ''package'') = Inr (Some ?package) \<and>
      ?package \<noteq> JNull"
    by simp
  note first = non_string_names_are_discarded [of None codeunit_compare ?xs ?ys "?xs @ ?ys" ?out ?direct
      ?vulnerability ?package]
  note second = non_string_names_are_discarded [of None codeunit_compare ?xs ?ys ?names ?out ?direct
      ?vulnerability ?package]
  from first kept undef direct package
  have a: "checked_dependencies codeunit_compare (?xs @ None # ?ys) = Inr ?out"
    and b: "\<forall>d \<in> set ?out. \<exists>s. Some (JStr s) \<in> set (?xs @ ?ys) \<and> d = trim s"
    and c: "\<exists>name. get_prop ?direct (js ''name'') = Inr name"
    and d: "\<exists>name. vulnerability_name ?vulnerability = Inr name"
    by metis+
  from second empty
  have e: "\<exists>e. checked_dependencies codeunit_compare ?names = Inl e" by blast
  from a b c d e empty show ?thesis unfolding list_all_iff by blast
qed

end
